theory Spec2Isabelle
  imports Main "HOL-Library.AList"
begin

section \<open>Values, errors and promises\<close>

text \<open>
  The repository is JavaScript. Values that cross the registry boundary (the input handed
  to a feature and what the feature hands back) are modelled by a small JSON-like type;
  numbers are integers, with \<open>JNaN\<close> for the not-a-number value.
  A thrown \<open>Error\<close> is its message. An awaited call of a feature's entry point is a
  promise: it resolves or rejects after some milliseconds, or it never settles.
\<close>

datatype jsval =
    JUndefined
  | JNull
  | JBool bool
  | JNum int
  | JNaN
  | JStr string
  | JArr "jsval list"
  | JObj "(string \<times> jsval) list"

datatype error = Error (message: string)

datatype 'a outcome = Returns 'a | Throws string

datatype 'a promise = Resolves nat 'a | Rejects nat string | Never

type_synonym callee = "jsval \<Rightarrow> jsval promise"

section \<open>The feature registry (FeatureManager)\<close>

record metadata =
  md_id :: "string option"
  md_title :: "string option"
  md_description :: "string option"
  md_category :: "string option"
  md_complexity :: "string option"
  md_generated :: "string option"

record route =
  r_method :: string
  r_path :: string
  r_handler :: string
  r_description :: string

text \<open>
  What the registry looks at in a loaded module: its metadata block, the recognised entry
  points (a field is \<open>Some f\<close> or \<open>True\<close> exactly when \<open>typeof\<close> gives
  \<open>'function'\<close>), the route table, the two truthy markers and the health probe.
  \<open>m_self\<close> is the module itself when the module is a function.
\<close>

record module =
  m_metadata :: "metadata option"
  m_self :: "callee option"
  m_execute :: "callee option"
  m_handler :: "callee option"
  m_get :: bool
  m_process :: bool
  m_validate :: bool
  m_transform :: bool
  m_routes :: "route list option"
  m_schedule :: bool
  m_webhook :: bool
  m_health :: "(unit \<Rightarrow> jsval outcome) option"

datatype created = Generated string | Birthtime nat

record feature =
  f_id :: string
  f_name :: string
  f_description :: string
  f_category :: string
  f_complexity :: string
  f_filePath :: string
  f_filename :: string
  f_module :: module
  f_created :: created
  f_lastModified :: nat
  f_lastUsed :: "nat option"
  f_usageCount :: nat
  f_active :: bool
  f_routes :: "route list"
  f_capabilities :: "string list"

text \<open>
  \<open>this.features\<close> is a JavaScript \<open>Map\<close> from feature id to feature: an association
  list, where \<open>set\<close> on a present key replaces the value in place and on a new key appends.
  The features are objects mutated in place, so an assignment to a field of a feature
  found under a key is an update of the entry under that key.
\<close>

type_synonym features = "(string \<times> feature) list"

record exec_feature =
  ef_id :: string
  ef_name :: string
  ef_usageCount :: nat

record exec_result =
  er_success :: bool
  er_result :: jsval
  er_feature :: exec_feature
  er_timestamp :: nat

definition default_input :: "jsval \<Rightarrow> jsval" where
  \<comment> \<open>the default parameter \<open>input = {}\<close>\<close>
  "default_input input = (if input = JUndefined then JObj [] else input)"

definition track_usage :: "nat \<Rightarrow> feature \<Rightarrow> feature" where
  \<comment> \<open>\<open>feature.lastUsed = new Date(); feature.usageCount++\<close>\<close>
  "track_usage now feature =
     feature\<lparr>f_lastUsed := Some now, f_usageCount := Suc (f_usageCount feature)\<rparr>"

definition dispatch :: "module \<Rightarrow> jsval \<Rightarrow> jsval promise" where
  \<comment> \<open>"Try different execution methods"\<close>
  "dispatch m input =
     (case m_execute m of
        Some f \<Rightarrow> f input
      | None \<Rightarrow>
          (case m_self m of
             Some f \<Rightarrow> f input
           | None \<Rightarrow>
               (case m_handler m of
                  Some f \<Rightarrow> f input
                | None \<Rightarrow> Rejects 0 ''No executable method found in feature'')))"

text \<open>
  \<open>executeFeature\<close>: the result is \<open>None\<close> when the awaited entry point never settles,
  \<open>Some (Inl e)\<close> when an error is thrown and \<open>Some (Inr r)\<close> when a result is returned;
  the second component is the registry afterwards. \<open>now\<close> is the clock at the call.
\<close>

definition executeFeature ::
  "nat \<Rightarrow> features \<Rightarrow> string \<Rightarrow> jsval \<Rightarrow> (error + exec_result) option \<times> features" where
  "executeFeature now features featureId input0 =
     (let input = default_input input0 in
      case map_of features featureId of
        None \<Rightarrow> (Some (Inl (Error (''Feature not found: '' @ featureId))), features)
      | Some feature \<Rightarrow>
          if \<not> f_active feature
          then (Some (Inl (Error (''Feature is inactive: '' @ f_name feature))), features)
          else
            (let feature' = track_usage now feature;
                 features' = AList.update featureId feature' features
             in case dispatch (f_module feature') input of
                  Resolves ms result \<Rightarrow>
                    (Some (Inr \<lparr>er_success = True, er_result = result,
                                er_feature = \<lparr>ef_id = f_id feature', ef_name = f_name feature',
                                              ef_usageCount = f_usageCount feature'\<rparr>,
                                er_timestamp = now + ms\<rparr>), features')
                | Rejects ms msg \<Rightarrow>
                    (Some (Inl (Error (''Feature execution failed: '' @ msg))), features')
                | Never \<Rightarrow> (None, features')))"

subsection \<open>Strings\<close>

text \<open>
  A string is a list of 8-bit characters, read as the code points 0 to 255.
  \<open>toLowerCase\<close> lowers A to Z and the upper-case letters of that range.
\<close>

definition is_upper :: "char \<Rightarrow> bool" where
  "is_upper c = (let n = (of_char c :: nat) in
     (65 \<le> n \<and> n \<le> 90) \<or> (192 \<le> n \<and> n \<le> 222 \<and> n \<noteq> 215))"

definition lower_char :: "char \<Rightarrow> char" where
  "lower_char c = (if is_upper c then char_of ((of_char c :: nat) + 32) else c)"

definition toLowerCase :: "string \<Rightarrow> string" where
  "toLowerCase s = map lower_char s"

definition is_space :: "char \<Rightarrow> bool" where
  \<comment> \<open>the class \<open>\s\<close> on this range: tab, line feed, vertical tab, form feed, carriage
     return, space and no-break space\<close>
  "is_space c = ((of_char c :: nat) \<in> {9, 10, 11, 12, 13, 32, 160})"

definition is_alnum :: "char \<Rightarrow> bool" where
  \<comment> \<open>the class \<open>[a-zA-Z0-9]\<close>\<close>
  "is_alnum c = (let n = (of_char c :: nat) in
     (48 \<le> n \<and> n \<le> 57) \<or> (65 \<le> n \<and> n \<le> 90) \<or> (97 \<le> n \<and> n \<le> 122))"

fun dash_spaces :: "string \<Rightarrow> string" where
  \<comment> \<open>\<open>.replace(/\s+/g, '-')\<close>: every maximal run of white space becomes one dash\<close>
  "dash_spaces [] = []"
| "dash_spaces [c] = (if is_space c then ''-'' else [c])"
| "dash_spaces (c # d # s) =
     (if is_space c then (if is_space d then dash_spaces (d # s) else CHR ''-'' # dash_spaces (d # s))
      else c # dash_spaces (d # s))"

definition dash_non_alnum :: "string \<Rightarrow> string" where
  \<comment> \<open>\<open>.replace(/[^a-zA-Z0-9]/g, '-')\<close>\<close>
  "dash_non_alnum s = map (\<lambda>c. if is_alnum c then c else CHR ''-'') s"

fun starts_with :: "string \<Rightarrow> string \<Rightarrow> bool" where
  \<comment> \<open>\<open>s.startsWith(p)\<close>\<close>
  "starts_with s [] = True"
| "starts_with [] (p # ps) = False"
| "starts_with (c # s) (p # ps) = (c = p \<and> starts_with s ps)"

definition ends_with :: "string \<Rightarrow> string \<Rightarrow> bool" where
  \<comment> \<open>\<open>s.endsWith(p)\<close>\<close>
  "ends_with s p = starts_with (rev s) (rev p)"

fun includes_str :: "string \<Rightarrow> string \<Rightarrow> bool" where
  \<comment> \<open>\<open>s.includes(k)\<close>\<close>
  "includes_str [] k = (k = [])"
| "includes_str (c # s) k = (starts_with (c # s) k \<or> includes_str s k)"

fun replace_first :: "string \<Rightarrow> string \<Rightarrow> string \<Rightarrow> string" where
  \<comment> \<open>\<open>s.replace(p, r)\<close> with a string pattern: the first occurrence only\<close>
  "replace_first [] p r = (if p = [] then r else [])"
| "replace_first (c # s) p r =
     (if starts_with (c # s) p then r @ drop (length p) (c # s)
      else c # replace_first s p r)"

definition digit_char :: "nat \<Rightarrow> char" where
  "digit_char d = char_of (48 + d)"

fun show_nat :: "nat \<Rightarrow> string" where
  "show_nat n = (if n < 10 then [digit_char n] else show_nat (n div 10) @ [digit_char (n mod 10)])"

declare show_nat.simps [simp del]

definition show_int :: "int \<Rightarrow> string" where
  "show_int i = (if i < 0 then CHR ''-'' # show_nat (nat (- i)) else show_nat (nat i))"

definition or_else :: "string option \<Rightarrow> string \<Rightarrow> string" where
  \<comment> \<open>\<open>v || d\<close> for a string or undefined: the empty string is falsy\<close>
  "or_else v d = (case v of None \<Rightarrow> d | Some s \<Rightarrow> if s = [] then d else s)"

definition interpolate :: "string option \<Rightarrow> string" where
  \<comment> \<open>a string or undefined inside a template literal\<close>
  "interpolate v = (case v of None \<Rightarrow> ''undefined'' | Some s \<Rightarrow> s)"

subsection \<open>JSON.stringify\<close>

definition hex_digit :: "nat \<Rightarrow> char" where
  "hex_digit d = (if d < 10 then char_of (48 + d) else char_of (87 + d))"

definition quote_char :: "char \<Rightarrow> string" where
  "quote_char c =
     (let n = (of_char c :: nat) in
      if c = CHR 0x22 then [CHR 0x5C, CHR 0x22]
      else if c = CHR 0x5C then [CHR 0x5C, CHR 0x5C]
      else if n = 8 then [CHR 0x5C, CHR ''b'']
      else if n = 12 then [CHR 0x5C, CHR ''f'']
      else if n = 10 then [CHR 0x5C, CHR ''n'']
      else if n = 13 then [CHR 0x5C, CHR ''r'']
      else if n = 9 then [CHR 0x5C, CHR ''t'']
      else if n < 32 then [CHR 0x5C, CHR ''u'', CHR ''0'', CHR ''0'', hex_digit (n div 16), hex_digit (n mod 16)]
      else [c])"

definition json_quote :: "string \<Rightarrow> string" where
  "json_quote s = [CHR 0x22] @ concat (map quote_char s) @ [CHR 0x22]"

fun join_with :: "string \<Rightarrow> string list \<Rightarrow> string" where
  "join_with sep [] = []"
| "join_with sep [x] = x"
| "join_with sep (x # y # xs) = x @ sep @ join_with sep (y # xs)"

text \<open>
  \<open>json_value\<close> is the text of a value inside an object (an undefined value has none and
  its property is left out, and in an array it reads null); \<open>JSON_stringify\<close> is the call
  at the top, which gives undefined for undefined.
\<close>

fun json_value :: "jsval \<Rightarrow> string option"
  and json_items :: "jsval list \<Rightarrow> string list"
  and json_props :: "(string \<times> jsval) list \<Rightarrow> string list" where
  "json_value JUndefined = None"
| "json_value JNull = Some ''null''"
| "json_value (JBool b) = Some (if b then ''true'' else ''false'')"
| "json_value (JNum i) = Some (show_int i)"
| "json_value JNaN = Some ''null''"
| "json_value (JStr s) = Some (json_quote s)"
| "json_value (JArr vs) = Some (''['' @ join_with '','' (json_items vs) @ '']'')"
| "json_value (JObj ps) = Some (''{'' @ join_with '','' (json_props ps) @ ''}'')"
| "json_items [] = []"
| "json_items (v # vs) =
     (case json_value v of
        None \<Rightarrow> ''null'' # json_items vs
      | Some t \<Rightarrow> t # json_items vs)"
| "json_props [] = []"
| "json_props (p # ps) =
     (case json_value (snd p) of
        None \<Rightarrow> json_props ps
      | Some t \<Rightarrow> (json_quote (fst p) @ '':'' @ t) # json_props ps)"

definition JSON_stringify :: "jsval \<Rightarrow> string option" where
  "JSON_stringify v = json_value v"

definition js_get :: "jsval \<Rightarrow> string \<Rightarrow> error + jsval" where
  \<comment> \<open>the property read \<open>v.k\<close>: a TypeError on undefined and null, undefined where the
     value has no such property\<close>
  "js_get v k =
     (case v of
        JUndefined \<Rightarrow> Inl (Error (''Cannot read properties of undefined (reading '' @ [CHR 0x27] @ k @ [CHR 0x27] @ '')''))
      | JNull \<Rightarrow> Inl (Error (''Cannot read properties of null (reading '' @ [CHR 0x27] @ k @ [CHR 0x27] @ '')''))
      | JObj ps \<Rightarrow> (case map_of ps k of None \<Rightarrow> Inr JUndefined | Some x \<Rightarrow> Inr x)
      | _ \<Rightarrow> Inr JUndefined)"

subsection \<open>Plans, files and the runtime\<close>

text \<open>
  A plan is the object the planner hands over. The model keeps the fields the schema of
  \<open>validatePlan\<close> names, each absent (\<open>None\<close>) or of the type the schema asks for.
\<close>

record file_entry =
  fe_path :: string
  fe_type :: string
  fe_purpose :: string

record plan =
  p_id :: "string option"
  p_title :: "string option"
  p_description :: "string option"
  p_category :: "string option"
  p_complexity :: "string option"
  p_estimatedLOC :: "int option"
  p_dependencies :: "string list option"
  p_files :: "file_entry list option"
  p_safetyConsiderations :: "string list option"

record stored_file =
  fl_content :: string
  fl_birthtime :: nat
  fl_mtime :: nat

text \<open>
  The runtime is a parameter: \<open>require\<close> gives the module a file's text evaluates to, or
  the error thrown while loading it (the registry clears the module cache before every
  load, so each load evaluates the text on disk); \<open>uuidv4\<close> gives the n-th random id drawn.
\<close>

record node =
  require :: "string \<Rightarrow> error + module"
  uuidv4 :: "nat \<Rightarrow> string"

text \<open>
  The state of a FeatureManager: the \<open>features\<close> map, the files of the storage root
  \<open>./dynamic\<close> in the order \<open>readdir\<close> lists them, and how many random ids were drawn.
  The storage root is taken to be readable and writable.
\<close>

record manager =
  fm_features :: features
  fm_files :: "(string \<times> stored_file) list"
  fm_uuids :: nat

definition md_field :: "(metadata \<Rightarrow> string option) \<Rightarrow> module \<Rightarrow> string option" where
  \<comment> \<open>\<open>module.metadata?.field\<close>\<close>
  "md_field sel m = (case m_metadata m of None \<Rightarrow> None | Some md \<Rightarrow> sel md)"

definition route_path :: "module \<Rightarrow> string" where
  "route_path m =
     ''/api/'' @ or_else (map_option (\<lambda>t. dash_spaces (toLowerCase t)) (md_field md_title m)) ''feature''"

definition extractRoutes :: "module \<Rightarrow> route list" where
  "extractRoutes m =
     (case m_routes m of
        Some rs \<Rightarrow> rs
      | None \<Rightarrow>
          (if m_execute m \<noteq> None
           then [\<lparr>r_method = ''POST'', r_path = route_path m, r_handler = ''execute'',
                   r_description = ''Execute the main feature function''\<rparr>]
           else []) @
          (if m_get m
           then [\<lparr>r_method = ''GET'', r_path = route_path m, r_handler = ''get'',
                   r_description = ''Get feature data''\<rparr>]
           else []))"

definition analyzeCapabilities :: "module \<Rightarrow> string list" where
  "analyzeCapabilities m =
     (if m_execute m \<noteq> None then [''executable''] else []) @
     (if m_get m then [''data-provider''] else []) @
     (if m_process m then [''processor''] else []) @
     (if m_validate m then [''validator''] else []) @
     (if m_transform m then [''transformer''] else []) @
     (case m_routes m of None \<Rightarrow> [] | Some rs \<Rightarrow> if length rs > 0 then [''api-provider''] else []) @
     (if m_schedule m then [''scheduled''] else []) @
     (if m_webhook m then [''webhook-handler''] else [])"

definition feature_id :: "node \<Rightarrow> nat \<Rightarrow> module \<Rightarrow> string \<times> nat" where
  \<comment> \<open>\<open>module.metadata?.id || uuidv4()\<close>, with the number of random ids drawn so far\<close>
  "feature_id nd n m =
     (case md_field md_id m of
        None \<Rightarrow> (uuidv4 nd n, Suc n)
      | Some s \<Rightarrow> if s = [] then (uuidv4 nd n, Suc n) else (s, n))"

definition loadFeature :: "node \<Rightarrow> string \<Rightarrow> manager \<Rightarrow> (error + feature) \<times> manager" where
  "loadFeature nd filename fm =
     (let filePath = ''dynamic/'' @ filename in
      case map_of (fm_files fm) filename of
        None \<Rightarrow> (Inl (Error (''Cannot find module '' @ filePath)), fm)
      | Some stats \<Rightarrow>
          (case require nd (fl_content stats) of
             Inl e \<Rightarrow> (Inl e, fm)
           | Inr m \<Rightarrow>
               (let (fid, n) = feature_id nd (fm_uuids fm) m;
                    feature =
                      \<lparr>f_id = fid,
                       f_name = or_else (md_field md_title m) (replace_first filename ''.js'' []),
                       f_description = or_else (md_field md_description m) ''AI-generated feature'',
                       f_category = or_else (md_field md_category m) ''utility'',
                       f_complexity = or_else (md_field md_complexity m) ''medium'',
                       f_filePath = filePath,
                       f_filename = filename,
                       f_module = m,
                       f_created =
                         (case md_field md_generated m of
                            None \<Rightarrow> Birthtime (fl_birthtime stats)
                          | Some g \<Rightarrow> if g = [] then Birthtime (fl_birthtime stats) else Generated g),
                       f_lastModified = fl_mtime stats,
                       f_lastUsed = None,
                       f_usageCount = 0,
                       f_active = True,
                       f_routes = extractRoutes m,
                       f_capabilities = analyzeCapabilities m\<rparr>
                in (Inr feature,
                    fm\<lparr>fm_features := AList.update fid feature (fm_features fm), fm_uuids := n\<rparr>))))"

fun load_files :: "node \<Rightarrow> string list \<Rightarrow> manager \<Rightarrow> manager" where
  \<comment> \<open>the loop of \<open>loadAllFeatures\<close>: a file that fails to load is skipped\<close>
  "load_files nd [] fm = fm"
| "load_files nd (name # rest) fm =
     (if ends_with name ''.js''
      then load_files nd rest (snd (loadFeature nd name fm))
      else load_files nd rest fm)"



definition nl :: string where
  "nl = [CHR 0x0A]"

definition sq :: string where
  "sq = [CHR 0x27]"

definition robot :: string where
  \<comment> \<open>the emoji of the header comment, as its UTF-8 bytes\<close>
  "robot = [CHR 0xF0, CHR 0x9F, CHR 0xA4, CHR 0x96]"

definition wrapFeatureCode :: "string \<Rightarrow> plan \<Rightarrow> string \<Rightarrow> string \<Rightarrow> string" where
  \<comment> \<open>\<open>isoHeader\<close> and \<open>isoMeta\<close> are the two \<open>new Date().toISOString()\<close> of the template\<close>
  "wrapFeatureCode code plan isoHeader isoMeta =
     nl @ ''/**'' @ nl @
     '' * '' @ robot @ '' Auto-generated feature by Autonomo'' @ nl @
     '' * '' @ nl @
     '' * Plan ID: '' @ interpolate (p_id plan) @ nl @
     '' * Title: '' @ interpolate (p_title plan) @ nl @
     '' * Description: '' @ interpolate (p_description plan) @ nl @
     '' * Generated: '' @ isoHeader @ nl @
     '' * Category: '' @ interpolate (p_category plan) @ nl @
     '' * Complexity: '' @ interpolate (p_complexity plan) @ nl @
     '' */'' @ nl @ nl @
     ''const winston = require('' @ sq @ ''winston'' @ sq @ '');'' @ nl @ nl @
     ''const logger = winston.createLogger({'' @ nl @
     ''  level: '' @ sq @ ''info'' @ sq @ '','' @ nl @
     ''  format: winston.format.simple(),'' @ nl @
     ''  transports: [new winston.transports.Console()]'' @ nl @
     ''});'' @ nl @ nl @
     ''// Wrap user code in error handling'' @ nl @
     ''const userCode = () => {'' @ nl @
     ''  '' @ code @ nl @
     ''};'' @ nl @ nl @
     ''// Execute user code'' @ nl @
     ''let exports;'' @ nl @
     ''try {'' @ nl @
     ''  exports = userCode();'' @ nl @
     ''} catch (error) {'' @ nl @
     ''  logger.error('' @ sq @ ''Feature initialization error:'' @ sq @ '', error);'' @ nl @
     ''  exports = {};'' @ nl @
     ''}'' @ nl @ nl @
     ''// Ensure proper module exports'' @ nl @
     ''if (typeof exports !== '' @ sq @ ''object'' @ sq @ '' || exports === null) {'' @ nl @
     ''  exports = { execute: exports };'' @ nl @
     ''}'' @ nl @ nl @
     ''// Add metadata'' @ nl @
     ''exports.metadata = {'' @ nl @
     ''  id: '' @ sq @ interpolate (p_id plan) @ sq @ '','' @ nl @
     ''  title: '' @ sq @ interpolate (p_title plan) @ sq @ '','' @ nl @
     ''  description: '' @ sq @ interpolate (p_description plan) @ sq @ '','' @ nl @
     ''  category: '' @ sq @ interpolate (p_category plan) @ sq @ '','' @ nl @
     ''  complexity: '' @ sq @ interpolate (p_complexity plan) @ sq @ '','' @ nl @
     ''  generated: '' @ sq @ isoMeta @ sq @ '','' @ nl @
     ''  agent: '' @ sq @ ''feature-manager'' @ sq @ '','' @ nl @
     ''  version: '' @ sq @ ''1.0.0'' @ sq @ nl @
     ''};'' @ nl @ nl @
     ''// Add health check'' @ nl @
     ''exports.health = () => ({'' @ nl @
     ''  status: '' @ sq @ ''healthy'' @ sq @ '','' @ nl @
     ''  name: exports.metadata.title,'' @ nl @
     ''  uptime: process.uptime()'' @ nl @
     ''});'' @ nl @ nl @
     ''module.exports = exports;'' @ nl"

definition health_check :: "module \<Rightarrow> error option" where
  \<comment> \<open>"Basic health check": the error thrown, if any\<close>
  "health_check m =
     (case m_health m of
        None \<Rightarrow> None
      | Some probe \<Rightarrow>
          (case probe () of
             Throws msg \<Rightarrow> Some (Error msg)
           | Returns health \<Rightarrow>
               (case js_get health ''status'' of
                  Inl e \<Rightarrow> Some e
                | Inr status \<Rightarrow>
                    if status \<noteq> JStr ''healthy''
                    then Some (Error (''Health check failed: '' @
                                 (case JSON_stringify health of None \<Rightarrow> ''undefined'' | Some t \<Rightarrow> t)))
                    else None)))"

definition race_timeout :: "nat \<Rightarrow> jsval promise \<Rightarrow> jsval outcome" where
  \<comment> \<open>\<open>Promise.race\<close> of the call with a timer that rejects with "Test timeout"\<close>
  "race_timeout limit p =
     (case p of
        Resolves ms v \<Rightarrow> if ms < limit then Returns v else Throws ''Test timeout''
      | Rejects ms msg \<Rightarrow> if ms < limit then Throws msg else Throws ''Test timeout''
      | Never \<Rightarrow> Throws ''Test timeout'')"

definition test_input :: jsval where
  "test_input = JObj [(''test'', JBool True)]"

text \<open>
  \<open>testFeature\<close> gives the error it throws or, when it completes, the warning it logged
  for a failed test execution (the text after the warning sign), and the feature afterwards.
\<close>

definition testFeature :: "feature \<Rightarrow> (error + string option) \<times> feature" where
  "testFeature feature =
     (case health_check (f_module feature) of
        Some e \<Rightarrow> (Inl e, feature\<lparr>f_active := False\<rparr>)
      | None \<Rightarrow>
          (case m_execute (f_module feature) of
             None \<Rightarrow> (Inr None, feature)
           | Some execute \<Rightarrow>
               (case race_timeout 5000 (execute test_input) of
                  Returns v \<Rightarrow> (Inr None, feature)
                | Throws msg \<Rightarrow> (Inr (Some (''Test execution warning: '' @ msg)), feature))))"

definition write_file :: "string \<Rightarrow> string \<Rightarrow> nat \<Rightarrow> (string \<times> stored_file) list \<Rightarrow> (string \<times> stored_file) list" where
  "write_file name text now files =
     AList.update name
       \<lparr>fl_content = text,
        fl_birthtime = (case map_of files name of None \<Rightarrow> now | Some old \<Rightarrow> fl_birthtime old),
        fl_mtime = now\<rparr> files"

definition feature_filename :: "nat \<Rightarrow> string \<Rightarrow> string" where
  "feature_filename now title =
     ''feature-'' @ show_nat now @ ''-'' @ toLowerCase (dash_non_alnum title) @ ''.js''"

text \<open>
  \<open>integrateFeature\<close> (the spec's \<open>register\<close>): \<open>now\<close> is \<open>Date.now()\<close>, the two strings
  are the timestamps the wrapper prints. The feature tested is the object stored in the
  map, so its deactivation shows in the map.
\<close>

definition integrateFeature ::
  "node \<Rightarrow> nat \<Rightarrow> string \<Rightarrow> string \<Rightarrow> string \<Rightarrow> plan \<Rightarrow> manager \<Rightarrow> (error + feature) \<times> manager" where
  "integrateFeature nd now isoHeader isoMeta code plan fm =
     (case p_title plan of
        None \<Rightarrow> (Inl (Error (''Cannot read properties of undefined (reading '' @ sq @ ''replace'' @ sq @ '')'')), fm)
      | Some title \<Rightarrow>
          (let filename = feature_filename now title;
               wrappedCode = wrapFeatureCode code plan isoHeader isoMeta;
               fm1 = fm\<lparr>fm_files := write_file filename wrappedCode now (fm_files fm)\<rparr>
           in case loadFeature nd filename fm1 of
                (Inl e, fm2) \<Rightarrow> (Inl e, fm2)
              | (Inr feature, fm2) \<Rightarrow>
                  (case testFeature feature of
                     (Inl e, feature') \<Rightarrow>
                       (Inl e, fm2\<lparr>fm_features := AList.update (f_id feature) feature' (fm_features fm2)\<rparr>)
                   | (Inr warning, feature') \<Rightarrow> (Inr feature', fm2))))"

section \<open>The safety manager (SafetyManager)\<close>

subsection \<open>Regular expressions\<close>

text \<open>
  The regular expressions of the safety manager are sequences of single characters,
  character classes and starred classes, some with alternatives and one with a negative
  lookahead at its end. An atom is one character of a class (\<open>One\<close>) or a greedy run of
  them (\<open>Many\<close>, the star); an alternative is a sequence of atoms with an optional negative
  lookahead; a regular expression is its source text and its alternatives in order.
\<close>

datatype atom = One "char \<Rightarrow> bool" | Many "char \<Rightarrow> bool"

type_synonym alternative = "atom list \<times> atom list option"

record regex =
  rx_source :: string
  rx_alternatives :: "alternative list"

definition dq :: string where
  "dq = [CHR 0x22]"

definition bs :: string where
  "bs = [CHR 0x5C]"

definition bt :: string where
  "bt = [CHR 0x60]"

definition is_word :: "char \<Rightarrow> bool" where
  \<comment> \<open>the class \<open>\w\<close>\<close>
  "is_word c = (is_alnum c \<or> c = CHR ''_'')"

definition is_quote :: "char \<Rightarrow> bool" where
  \<comment> \<open>the class of the three quote characters\<close>
  "is_quote c = (c = CHR 0x27 \<or> c = CHR 0x22 \<or> c = CHR 0x60)"

definition ci :: "string \<Rightarrow> atom list" where
  \<comment> \<open>a literal under the flag \<open>i\<close>\<close>
  "ci w = map (\<lambda>p. One (\<lambda>c. lower_char c = lower_char p)) w"

definition cs :: "string \<Rightarrow> atom list" where
  \<comment> \<open>a literal, case-sensitive\<close>
  "cs w = map (\<lambda>p. One (\<lambda>c. c = p)) w"

text \<open>
  \<open>match_plain as s\<close> is the length of the match of the atoms at the start of \<open>s\<close>, if
  there is one: a star takes as many characters as it can and gives them back one by one.
  \<open>match_here\<close> is the same with the lookahead of the alternative checked at its end.
\<close>

fun match_plain :: "atom list \<Rightarrow> string \<Rightarrow> nat option" where
  "match_plain [] s = Some 0"
| "match_plain (One p # as) [] = None"
| "match_plain (One p # as) (c # s) = (if p c then map_option Suc (match_plain as s) else None)"
| "match_plain (Many p # as) [] = match_plain as []"
| "match_plain (Many p # as) (c # s) =
     (case (if p c then match_plain (Many p # as) s else None) of
        Some n \<Rightarrow> Some (Suc n)
      | None \<Rightarrow> match_plain as (c # s))"

fun match_here :: "atom list \<Rightarrow> atom list option \<Rightarrow> string \<Rightarrow> nat option" where
  "match_here [] la s =
     (case la of
        None \<Rightarrow> Some 0
      | Some l \<Rightarrow> if match_plain l s = None then Some 0 else None)"
| "match_here (One p # as) la [] = None"
| "match_here (One p # as) la (c # s) = (if p c then map_option Suc (match_here as la s) else None)"
| "match_here (Many p # as) la [] = match_here as la []"
| "match_here (Many p # as) la (c # s) =
     (case (if p c then match_here (Many p # as) la s else None) of
        Some n \<Rightarrow> Some (Suc n)
      | None \<Rightarrow> match_here as la (c # s))"

fun first_alt :: "alternative list \<Rightarrow> string \<Rightarrow> nat option" where
  \<comment> \<open>the alternatives are tried in order at one position\<close>
  "first_alt [] s = None"
| "first_alt (a # alts) s =
     (case match_here (fst a) (snd a) s of
        Some n \<Rightarrow> Some n
      | None \<Rightarrow> first_alt alts s)"

fun search :: "alternative list \<Rightarrow> string \<Rightarrow> (nat \<times> nat) option" where
  \<comment> \<open>the leftmost match: where it starts and how long it is\<close>
  "search alts [] = map_option (\<lambda>n. (0, n)) (first_alt alts [])"
| "search alts (c # s) =
     (case first_alt alts (c # s) of
        Some n \<Rightarrow> Some (0, n)
      | None \<Rightarrow> map_option (\<lambda>(i, n). (Suc i, n)) (search alts s))"

definition first_match :: "regex \<Rightarrow> string \<Rightarrow> string option" where
  \<comment> \<open>\<open>code.match(pattern)\<close> with the flag \<open>g\<close>, and then \<open>matches[0]\<close>: \<open>None\<close> is null\<close>
  "first_match rx code =
     (case search (rx_alternatives rx) code of
        None \<Rightarrow> None
      | Some (i, n) \<Rightarrow> Some (take n (drop i code)))"

fun count_matches :: "alternative list \<Rightarrow> string \<Rightarrow> nat" where
  \<comment> \<open>\<open>(code.match(pattern) || []).length\<close> with the flag \<open>g\<close>: matches do not overlap, and
     after an empty match the search moves on by one character\<close>
  "count_matches alts [] = (if first_alt alts [] = None then 0 else 1)"
| "count_matches alts (c # s) =
     (case first_alt alts (c # s) of
        None \<Rightarrow> count_matches alts s
      | Some 0 \<Rightarrow> Suc (count_matches alts s)
      | Some (Suc k) \<Rightarrow> Suc (count_matches alts (drop k s)))"

subsection \<open>Rules and banned patterns\<close>

record safetyRules =
  maxFileSize :: nat
  maxExecutionTime :: int
  maxMemoryUsage :: int
  allowNetworkAccess :: bool
  allowFileSystemAccess :: bool
  enableSandbox :: bool

definition loadSafetyRules :: safetyRules where
  \<comment> \<open>the rules with no environment variable set\<close>
  "loadSafetyRules =
     \<lparr>maxFileSize = 100 * 1024, maxExecutionTime = 30000, maxMemoryUsage = 50 * 1024 * 1024,
      allowNetworkAccess = False, allowFileSystemAccess = False, enableSandbox = True\<rparr>"

definition require_of :: "string \<Rightarrow> atom list" where
  \<comment> \<open>\<open>require\(['"`]name['"`]\)\<close>\<close>
  "require_of name = ci ''require('' @ [One is_quote] @ ci name @ [One is_quote] @ ci '')''"

definition loadBannedPatterns :: "regex list" where
  "loadBannedPatterns =
      [\<lparr>rx_source = ''/require'' @ bs @ ''(['' @ sq @ dq @ bt @ '']child_process['' @ sq @ dq @ bt @ '']'' @ bs @ '')/gi'',
        rx_alternatives = [(require_of ''child_process'', None)]\<rparr>,
       \<lparr>rx_source = ''/require'' @ bs @ ''(['' @ sq @ dq @ bt @ '']fs['' @ sq @ dq @ bt @ '']'' @ bs @ '')(?!'' @ bs @ ''.promises)/gi'',
        rx_alternatives = [(require_of ''fs'', Some (ci ''.promises''))]\<rparr>,
       \<lparr>rx_source = ''/require'' @ bs @ ''(['' @ sq @ dq @ bt @ '']net['' @ sq @ dq @ bt @ '']'' @ bs @ '')/gi'',
        rx_alternatives = [(require_of ''net'', None)]\<rparr>,
       \<lparr>rx_source = ''/require'' @ bs @ ''(['' @ sq @ dq @ bt @ '']http['' @ sq @ dq @ bt @ '']'' @ bs @ '')/gi'',
        rx_alternatives = [(require_of ''http'', None)]\<rparr>,
       \<lparr>rx_source = ''/require'' @ bs @ ''(['' @ sq @ dq @ bt @ '']https['' @ sq @ dq @ bt @ '']'' @ bs @ '')/gi'',
        rx_alternatives = [(require_of ''https'', None)]\<rparr>,
       \<lparr>rx_source = ''/require'' @ bs @ ''(['' @ sq @ dq @ bt @ '']cluster['' @ sq @ dq @ bt @ '']'' @ bs @ '')/gi'',
        rx_alternatives = [(require_of ''cluster'', None)]\<rparr>,
       \<lparr>rx_source = ''/require'' @ bs @ ''(['' @ sq @ dq @ bt @ '']worker_threads['' @ sq @ dq @ bt @ '']'' @ bs @ '')/gi'',
        rx_alternatives = [(require_of ''worker_threads'', None)]\<rparr>,
       \<lparr>rx_source = ''/process'' @ bs @ ''.exit/gi'',
        rx_alternatives = [(ci ''process.exit'', None)]\<rparr>,
       \<lparr>rx_source = ''/process'' @ bs @ ''.kill/gi'',
        rx_alternatives = [(ci ''process.kill'', None)]\<rparr>,
       \<lparr>rx_source = ''/process'' @ bs @ ''.abort/gi'',
        rx_alternatives = [(ci ''process.abort'', None)]\<rparr>,
       \<lparr>rx_source = ''/'' @ bs @ ''.writeFile/gi'',
        rx_alternatives = [(ci ''.writeFile'', None)]\<rparr>,
       \<lparr>rx_source = ''/'' @ bs @ ''.writeFileSync/gi'',
        rx_alternatives = [(ci ''.writeFileSync'', None)]\<rparr>,
       \<lparr>rx_source = ''/'' @ bs @ ''.unlink/gi'',
        rx_alternatives = [(ci ''.unlink'', None)]\<rparr>,
       \<lparr>rx_source = ''/'' @ bs @ ''.unlinkSync/gi'',
        rx_alternatives = [(ci ''.unlinkSync'', None)]\<rparr>,
       \<lparr>rx_source = ''/'' @ bs @ ''.rmdir/gi'',
        rx_alternatives = [(ci ''.rmdir'', None)]\<rparr>,
       \<lparr>rx_source = ''/'' @ bs @ ''.rmdirSync/gi'',
        rx_alternatives = [(ci ''.rmdirSync'', None)]\<rparr>,
       \<lparr>rx_source = ''/fetch'' @ bs @ ''(/gi'',
        rx_alternatives = [(ci ''fetch('', None)]\<rparr>,
       \<lparr>rx_source = ''/axios'' @ bs @ ''./gi'',
        rx_alternatives = [(ci ''axios.'', None)]\<rparr>,
       \<lparr>rx_source = ''/XMLHttpRequest/gi'',
        rx_alternatives = [(ci ''XMLHttpRequest'', None)]\<rparr>,
       \<lparr>rx_source = ''/eval'' @ bs @ ''(/gi'',
        rx_alternatives = [(ci ''eval('', None)]\<rparr>,
       \<lparr>rx_source = ''/Function'' @ bs @ ''(/gi'',
        rx_alternatives = [(ci ''Function('', None)]\<rparr>,
       \<lparr>rx_source = ''/setTimeout'' @ bs @ ''(/gi'',
        rx_alternatives = [(ci ''setTimeout('', None)]\<rparr>,
       \<lparr>rx_source = ''/setInterval'' @ bs @ ''(/gi'',
        rx_alternatives = [(ci ''setInterval('', None)]\<rparr>,
       \<lparr>rx_source = ''/global'' @ bs @ ''./gi'',
        rx_alternatives = [(ci ''global.'', None)]\<rparr>,
       \<lparr>rx_source = ''/globalThis'' @ bs @ ''./gi'',
        rx_alternatives = [(ci ''globalThis.'', None)]\<rparr>,
       \<lparr>rx_source = ''/while'' @ bs @ ''s*'' @ bs @ ''('' @ bs @ ''s*true'' @ bs @ ''s*'' @ bs @ '')/gi'',
        rx_alternatives = [(ci ''while'' @ [Many is_space] @ ci ''('' @ [Many is_space] @ ci ''true'' @ [Many is_space] @ ci '')'', None)]\<rparr>,
       \<lparr>rx_source = ''/for'' @ bs @ ''s*'' @ bs @ ''('' @ bs @ ''s*;'' @ bs @ ''s*;'' @ bs @ ''s*'' @ bs @ '')/gi'',
        rx_alternatives = [(ci ''for'' @ [Many is_space] @ ci ''('' @ [Many is_space] @ ci '';'' @ [Many is_space] @ ci '';'' @ [Many is_space] @ ci '')'', None)]\<rparr>]"

definition loadAllowedModules :: "string list" where
  "loadAllowedModules =
     [''crypto'', ''util'', ''events'', ''stream'', ''uuid'', ''joi'', ''lodash'', ''moment'',
      ''chalk'', ''winston'']"

subsection \<open>Static analysis\<close>

record complexity =
  cx_lines :: nat
  cx_functionCount :: nat
  cx_loopCount :: nat
  cx_conditionalCount :: nat
  cx_risk :: string
  cx_reason :: string

record dynamic_metrics =
  dm_executionTime :: int
  dm_memoryDelta :: int
  dm_result :: jsval

datatype metrics =
    StaticMetrics complexity
  | DynamicMetrics dynamic_metrics
  | SandboxMetrics complexity dynamic_metrics

text \<open>
  The object a check of code returns: \<open>safe\<close>, and the properties \<open>reason\<close>,
  \<open>pattern\<close>, \<open>metrics\<close> and \<open>error\<close> where the code sets them.
\<close>

record report =
  rp_safe :: bool
  rp_reason :: "string option"
  rp_pattern :: "string option"
  rp_metrics :: "metrics option"
  rp_error :: "string option"

definition function_rx :: "alternative list" where
  \<comment> \<open>\<open>/function\s+\w+/g\<close>\<close>
  "function_rx = [(cs ''function'' @ [One is_space, Many is_space, One is_word, Many is_word], None)]"

definition loop_rx :: "alternative list" where
  \<comment> \<open>\<open>/for\s*\(|while\s*\(|do\s*{/g\<close>\<close>
  "loop_rx =
     [(cs ''for'' @ [Many is_space] @ cs ''('', None),
      (cs ''while'' @ [Many is_space] @ cs ''('', None),
      (cs ''do'' @ [Many is_space] @ cs ''{'', None)]"

definition conditional_rx :: "alternative list" where
  \<comment> \<open>\<open>/if\s*\(|switch\s*\(/g\<close>\<close>
  "conditional_rx =
     [(cs ''if'' @ [Many is_space] @ cs ''('', None),
      (cs ''switch'' @ [Many is_space] @ cs ''('', None)]"

definition analyzeComplexity :: "string \<Rightarrow> complexity" where
  "analyzeComplexity code =
     (let lines = Suc (length (filter (\<lambda>c. c = CHR 0x0A) code));
          functionCount = count_matches function_rx code;
          loopCount = count_matches loop_rx code;
          conditionalCount = count_matches conditional_rx code;
          (risk, reason) =
            (if lines > 500 then (''high'', ''Too many lines of code'')
             else if functionCount > 20 then (''high'', ''Too many functions'')
             else if loopCount > 10 then (''medium'', ''High number of loops'')
             else if conditionalCount > 15 then (''medium'', ''High number of conditionals'')
             else (''low'', ''Code complexity is acceptable''))
      in \<lparr>cx_lines = lines, cx_functionCount = functionCount, cx_loopCount = loopCount,
          cx_conditionalCount = conditionalCount, cx_risk = risk, cx_reason = reason\<rparr>)"

fun first_banned :: "regex list \<Rightarrow> string \<Rightarrow> (regex \<times> string) option" where
  \<comment> \<open>the loop over the banned patterns: the first pattern with a match, and its first match\<close>
  "first_banned [] code = None"
| "first_banned (pattern # rest) code =
     (case first_match pattern code of
        Some m \<Rightarrow> Some (pattern, m)
      | None \<Rightarrow> first_banned rest code)"

definition performStaticAnalysis :: "safetyRules \<Rightarrow> regex list \<Rightarrow> string \<Rightarrow> report" where
  "performStaticAnalysis rules bannedPatterns code =
     (if length code > maxFileSize rules
      then \<lparr>rp_safe = False,
            rp_reason = Some (''Code size ('' @ show_nat (length code) @
                              '') exceeds maximum allowed ('' @ show_nat (maxFileSize rules) @ '')''),
            rp_pattern = None, rp_metrics = None, rp_error = None\<rparr>
      else
        (case first_banned bannedPatterns code of
           Some (pattern, m) \<Rightarrow>
             \<lparr>rp_safe = False, rp_reason = Some (''Banned pattern detected: '' @ m),
              rp_pattern = Some (rx_source pattern), rp_metrics = None, rp_error = None\<rparr>
         | None \<Rightarrow>
             (let complexityMetrics = analyzeComplexity code in
              if cx_risk complexityMetrics = ''high''
              then \<lparr>rp_safe = False,
                    rp_reason = Some (''Code complexity too high: '' @ cx_reason complexityMetrics),
                    rp_pattern = None, rp_metrics = None, rp_error = None\<rparr>
              else \<lparr>rp_safe = True, rp_reason = None, rp_pattern = None,
                    rp_metrics = Some (StaticMetrics complexityMetrics), rp_error = None\<rparr>)))"

subsection \<open>Dynamic testing and the sandbox test\<close>

text \<open>
  The run of the code in the isolated context is an input of the model: the clock and the
  heap size read before it, and either the value the run returned with the clock and the
  heap size read after it, or the message of the error thrown while the context was set up
  or while the code ran (a run the context stops at its own time limit throws as well).
\<close>

datatype vm_run = Finished jsval int int | Failed string

record sandbox_run =
  sr_startTime :: int
  sr_startHeap :: int
  sr_run :: vm_run

definition performDynamicTesting :: "safetyRules \<Rightarrow> sandbox_run \<Rightarrow> report" where
  "performDynamicTesting rules sr =
     (case sr_run sr of
        Finished result endTime endHeap \<Rightarrow>
          (let executionTime = endTime - sr_startTime sr;
               memoryDelta = endHeap - sr_startHeap sr
           in if executionTime > maxExecutionTime rules
              then \<lparr>rp_safe = False,
                    rp_reason = Some (''Execution time ('' @ show_int executionTime @
                                      ''ms) exceeded limit ('' @ show_int (maxExecutionTime rules) @ ''ms)''),
                    rp_pattern = None, rp_metrics = None, rp_error = None\<rparr>
              else if memoryDelta > maxMemoryUsage rules
              then \<lparr>rp_safe = False,
                    rp_reason = Some (''Memory usage ('' @ show_int memoryDelta @
                                      '' bytes) exceeded limit ('' @ show_int (maxMemoryUsage rules) @ '' bytes)''),
                    rp_pattern = None, rp_metrics = None, rp_error = None\<rparr>
              else \<lparr>rp_safe = True, rp_reason = None, rp_pattern = None,
                    rp_metrics = Some (DynamicMetrics
                      \<lparr>dm_executionTime = executionTime, dm_memoryDelta = memoryDelta,
                       dm_result = result\<rparr>),
                    rp_error = None\<rparr>)
      | Failed msg \<Rightarrow>
          \<lparr>rp_safe = False, rp_reason = Some (''Dynamic testing failed: '' @ msg),
           rp_pattern = None, rp_metrics = None, rp_error = Some msg\<rparr>)"

text \<open>
  The stages of an evolution cycle, in the order \<open>evolve\<close> calls them. Every function of
  the model that stands for a call of a stage says so in the list of stages it returns;
  \<open>Recording b\<close> is the call of \<open>recordEvolution\<close> with \<open>success: b\<close>.
\<close>

datatype stage =
    Planning
  | PlanValidation
  | CodeGeneration
  | StaticAnalysis
  | SandboxExecution
  | Integration
  | Recording bool
  | Reflection
  | Quarantine

definition combined_metrics :: "report \<Rightarrow> report \<Rightarrow> metrics option" where
  \<comment> \<open>\<open>{ staticAnalysis: staticCheck.metrics, dynamicTesting: dynamicCheck.metrics }\<close>\<close>
  "combined_metrics staticCheck dynamicCheck =
     (case (rp_metrics staticCheck, rp_metrics dynamicCheck) of
        (Some (StaticMetrics c), Some (DynamicMetrics d)) \<Rightarrow> Some (SandboxMetrics c d)
      | _ \<Rightarrow> None)"

definition testInSandbox ::
  "safetyRules \<Rightarrow> regex list \<Rightarrow> (string \<Rightarrow> sandbox_run) \<Rightarrow> string \<Rightarrow> report \<times> stage list" where
  "testInSandbox rules bannedPatterns vm code =
     (let staticCheck = performStaticAnalysis rules bannedPatterns code in
      if \<not> rp_safe staticCheck then (staticCheck, [StaticAnalysis])
      else
        (let dynamicCheck = performDynamicTesting rules (vm code) in
         if \<not> rp_safe dynamicCheck then (dynamicCheck, [StaticAnalysis, SandboxExecution])
         else (\<lparr>rp_safe = True, rp_reason = Some ''Code passed all sandbox tests'',
                rp_pattern = None, rp_metrics = combined_metrics staticCheck dynamicCheck,
                rp_error = None\<rparr>, [StaticAnalysis, SandboxExecution])))"

subsection \<open>Plan validation\<close>

text \<open>
  The schema check is done by the library Joi, which is not part of the repository. The
  model follows the library on plans of the record type above: the keys are checked in the
  order of the schema and the first error is reported, a required key that is absent
  "is required", a string must not be empty, and the items of an array are checked before
  its length.
\<close>

record validation =
  v_approved :: bool
  v_reason :: string
  v_severity :: string

definition label :: "string \<Rightarrow> string" where
  "label k = dq @ k @ dq"

fun first_error :: "string option list \<Rightarrow> string option" where
  "first_error [] = None"
| "first_error (None # es) = first_error es"
| "first_error (Some e # es) = Some e"

definition joi_string :: "string \<Rightarrow> string \<Rightarrow> string option" where
  \<comment> \<open>\<open>Joi.string()\<close> on a present value\<close>
  "joi_string k s = (if s = [] then Some (label k @ '' is not allowed to be empty'') else None)"

definition joi_required :: "string \<Rightarrow> 'a option \<Rightarrow> string option" where
  "joi_required k v = (case v of None \<Rightarrow> Some (label k @ '' is required'') | Some x \<Rightarrow> None)"

definition joi_min :: "string \<Rightarrow> nat \<Rightarrow> string \<Rightarrow> string option" where
  "joi_min k n s =
     (if length s < n then Some (label k @ '' length must be at least '' @ show_nat n @ '' characters long'')
      else None)"

definition joi_max :: "string \<Rightarrow> nat \<Rightarrow> string \<Rightarrow> string option" where
  "joi_max k n s =
     (if length s > n
      then Some (label k @ '' length must be less than or equal to '' @ show_nat n @ '' characters long'')
      else None)"

definition joi_valid :: "string \<Rightarrow> string list \<Rightarrow> string option \<Rightarrow> string option" where
  \<comment> \<open>\<open>Joi.string().valid(...).required()\<close>\<close>
  "joi_valid k allowed v =
     (case v of
        None \<Rightarrow> Some (label k @ '' is required'')
      | Some s \<Rightarrow>
          if s \<in> set allowed then None
          else Some (label k @ '' must be one of ['' @ join_with '', '' allowed @ '']''))"

definition joi_bounded :: "string \<Rightarrow> nat \<Rightarrow> nat \<Rightarrow> string option \<Rightarrow> string option" where
  \<comment> \<open>\<open>Joi.string().min(lo).max(hi).required()\<close>\<close>
  "joi_bounded k lo hi v =
     (case v of
        None \<Rightarrow> Some (label k @ '' is required'')
      | Some s \<Rightarrow> first_error [joi_string k s, joi_min k lo s, joi_max k hi s])"

definition joi_number :: "string \<Rightarrow> int \<Rightarrow> int \<Rightarrow> int option \<Rightarrow> string option" where
  \<comment> \<open>\<open>Joi.number().min(lo).max(hi)\<close>\<close>
  "joi_number k lo hi v =
     (case v of
        None \<Rightarrow> None
      | Some n \<Rightarrow>
          if n < lo then Some (label k @ '' must be greater than or equal to '' @ show_int lo)
          else if n > hi then Some (label k @ '' must be less than or equal to '' @ show_int hi)
          else None)"

definition joi_array_max :: "string \<Rightarrow> nat \<Rightarrow> 'a list \<Rightarrow> string option" where
  "joi_array_max k n xs =
     (if length xs > n
      then Some (label k @ '' must contain less than or equal to '' @ show_nat n @ '' items'')
      else None)"

definition item_label :: "string \<Rightarrow> nat \<Rightarrow> string" where
  "item_label k i = k @ ''['' @ show_nat i @ '']''"

fun joi_strings :: "string \<Rightarrow> nat \<Rightarrow> string list \<Rightarrow> string option" where
  \<comment> \<open>\<open>.items(Joi.string())\<close>, from index i on\<close>
  "joi_strings k i [] = None"
| "joi_strings k i (s # ss) =
     (case joi_string (item_label k i) s of
        Some e \<Rightarrow> Some e
      | None \<Rightarrow> joi_strings k (Suc i) ss)"

fun joi_files :: "nat \<Rightarrow> file_entry list \<Rightarrow> string option" where
  \<comment> \<open>the items of \<open>files\<close>: three required strings each\<close>
  "joi_files i [] = None"
| "joi_files i (f # fs) =
     (case first_error
             [joi_string (item_label ''files'' i @ ''.path'') (fe_path f),
              joi_string (item_label ''files'' i @ ''.type'') (fe_type f),
              joi_string (item_label ''files'' i @ ''.purpose'') (fe_purpose f)] of
        Some e \<Rightarrow> Some e
      | None \<Rightarrow> joi_files (Suc i) fs)"

definition planSchema :: "plan \<Rightarrow> string option" where
  \<comment> \<open>\<open>planSchema.validate(plan)\<close>: the message of the first error, if any\<close>
  "planSchema plan =
     first_error
       [case p_id plan of None \<Rightarrow> Some (label ''id'' @ '' is required'') | Some s \<Rightarrow> joi_string ''id'' s,
        joi_bounded ''title'' 3 100 (p_title plan),
        joi_bounded ''description'' 10 1000 (p_description plan),
        joi_valid ''category'' [''api'', ''utility'', ''ui'', ''integration'', ''data''] (p_category plan),
        joi_valid ''complexity'' [''low'', ''medium'', ''high''] (p_complexity plan),
        joi_number ''estimatedLOC'' 1 2000 (p_estimatedLOC plan),
        case p_dependencies plan of
          None \<Rightarrow> None
        | Some ds \<Rightarrow> first_error [joi_strings ''dependencies'' 0 ds, joi_array_max ''dependencies'' 10 ds],
        case p_files plan of
          None \<Rightarrow> None
        | Some fs \<Rightarrow> first_error [joi_files 0 fs, joi_array_max ''files'' 5 fs],
        case p_safetyConsiderations plan of
          None \<Rightarrow> None
        | Some ss \<Rightarrow> joi_strings ''safetyConsiderations'' 0 ss]"

definition opt_prop :: "string \<Rightarrow> 'a option \<Rightarrow> ('a \<Rightarrow> jsval) \<Rightarrow> (string \<times> jsval) list" where
  "opt_prop k v f = (case v of None \<Rightarrow> [] | Some x \<Rightarrow> [(k, f x)])"

definition file_entry_object :: "file_entry \<Rightarrow> jsval" where
  "file_entry_object f =
     JObj [(''path'', JStr (fe_path f)), (''type'', JStr (fe_type f)), (''purpose'', JStr (fe_purpose f))]"

definition plan_object :: "plan \<Rightarrow> jsval" where
  \<comment> \<open>the plan as the object it is, its present properties in the order of the schema\<close>
  "plan_object plan =
     JObj (opt_prop ''id'' (p_id plan) JStr @
           opt_prop ''title'' (p_title plan) JStr @
           opt_prop ''description'' (p_description plan) JStr @
           opt_prop ''category'' (p_category plan) JStr @
           opt_prop ''complexity'' (p_complexity plan) JStr @
           opt_prop ''estimatedLOC'' (p_estimatedLOC plan) JNum @
           opt_prop ''dependencies'' (p_dependencies plan) (\<lambda>ds. JArr (map JStr ds)) @
           opt_prop ''files'' (p_files plan) (\<lambda>fs. JArr (map file_entry_object fs)) @
           opt_prop ''safetyConsiderations'' (p_safetyConsiderations plan) (\<lambda>ss. JArr (map JStr ss)))"

definition suspiciousKeywords :: "string list" where
  "suspiciousKeywords =
     [''delete'', ''remove'', ''destroy'', ''hack'', ''exploit'',
      ''malware'', ''virus'', ''backdoor'', ''shell'', ''exec'',
      ''password'', ''secret'', ''token'', ''credential'']"

fun first_keyword :: "string list \<Rightarrow> string \<Rightarrow> string option" where
  "first_keyword [] text = None"
| "first_keyword (keyword # rest) text =
     (if includes_str text keyword then Some keyword else first_keyword rest text)"

fun unsafe_path :: "file_entry list \<Rightarrow> string option" where
  "unsafe_path [] = None"
| "unsafe_path (f # fs) =
     (if \<not> starts_with (fe_path f) ''dynamic/'' then Some (fe_path f) else unsafe_path fs)"

text \<open>The checks below give the reason of the object they return, \<open>None\<close> for \<open>safe: true\<close>.\<close>

definition textContent :: "plan \<Rightarrow> string" where
  \<comment> \<open>\<open>JSON.stringify(plan).toLowerCase()\<close>\<close>
  "textContent plan =
     toLowerCase (case JSON_stringify (plan_object plan) of None \<Rightarrow> [] | Some t \<Rightarrow> t)"

definition checkSuspiciousContent :: "plan \<Rightarrow> string option" where
  "checkSuspiciousContent plan =
     (case first_keyword suspiciousKeywords (textContent plan) of
        Some keyword \<Rightarrow> Some (''Suspicious keyword detected: '' @ keyword)
      | None \<Rightarrow>
          (case p_files plan of
             None \<Rightarrow> None
           | Some fs \<Rightarrow>
               (case unsafe_path fs of
                  Some path \<Rightarrow>
                    Some (''Unsafe file path: '' @ path @ ''. All files must be in dynamic/ directory'')
                | None \<Rightarrow> None)))"

fun validateDependencies :: "string list \<Rightarrow> string list \<Rightarrow> string option" where
  "validateDependencies allowedModules [] = None"
| "validateDependencies allowedModules (dep # rest) =
     (if dep \<notin> set allowedModules
      then Some (''Dependency '' @ sq @ dep @ sq @ '' is not in the allowed modules list'')
      else validateDependencies allowedModules rest)"

definition validatePlan :: "plan \<Rightarrow> validation" where
  "validatePlan plan =
     (case planSchema plan of
        Some msg \<Rightarrow>
          \<lparr>v_approved = False, v_reason = ''Plan validation failed: '' @ msg, v_severity = ''high''\<rparr>
      | None \<Rightarrow>
          (case checkSuspiciousContent plan of
             Some reason \<Rightarrow> \<lparr>v_approved = False, v_reason = reason, v_severity = ''high''\<rparr>
           | None \<Rightarrow>
               (case validateDependencies loadAllowedModules
                       (case p_dependencies plan of None \<Rightarrow> [] | Some ds \<Rightarrow> ds) of
                  Some reason \<Rightarrow> \<lparr>v_approved = False, v_reason = reason, v_severity = ''medium''\<rparr>
                | None \<Rightarrow>
                    \<lparr>v_approved = True, v_reason = ''Plan passed all safety checks'',
                     v_severity = ''none''\<rparr>)))"

section \<open>The evolution cycle (Autonomo.evolve)\<close>

record evolution_record =
  ev_success :: bool
  ev_plan :: "plan option"
  ev_feature :: "feature option"
  ev_mode :: string
  ev_request :: "string option"
  ev_error :: "string option"
  ev_timestamp :: nat

record evolution =
  evo_feature_id :: string
  evo_feature_name :: string
  evo_feature_description :: string
  evo_plan :: plan

text \<open>
  What an evolution cycle takes from outside: the runtime, the rules, the agents (the
  planner, which sees the request, the mode and the registry; the coder; the reflector),
  the sandbox run of a code text, and the clock with the two timestamps of the wrapper.
\<close>

record world =
  w_node :: node
  w_rules :: safetyRules
  w_plan :: "string option \<Rightarrow> string \<Rightarrow> manager \<Rightarrow> plan outcome"
  w_generateCode :: "plan \<Rightarrow> string outcome"
  w_vm :: "string \<Rightarrow> sandbox_run"
  w_reflect :: "evolution_record \<Rightarrow> unit outcome"
  w_now :: nat
  w_isoHeader :: string
  w_isoMeta :: string

text \<open>
  The state an evolution cycle works on: the registry, the evolution history, the files
  under \<open>logs/quarantine\<close> (path and text), and the stages called so far.
\<close>

record autonomo =
  a_features :: manager
  a_evolutionLog :: "evolution_record list"
  a_quarantine :: "(string \<times> string) list"
  a_stages :: "stage list"

definition warning_sign :: string where
  \<comment> \<open>the emoji of the quarantine header, as its UTF-8 bytes\<close>
  "warning_sign = [CHR 0xE2, CHR 0x9A, CHR 0xA0, CHR 0xEF, CHR 0xB8, CHR 0x8F]"

definition quarantineCode :: "nat \<Rightarrow> string \<Rightarrow> string \<Rightarrow> string \<Rightarrow> autonomo \<Rightarrow> string \<times> autonomo" where
  \<comment> \<open>\<open>timestamp\<close> is \<open>Date.now()\<close> and \<open>stamp\<close> the time printed in the header\<close>
  "quarantineCode timestamp stamp code reason st =
     (let quarantinePath = ''logs/quarantine/quarantine-'' @ show_nat timestamp @ ''.js'';
          quarantineContent =
            nl @ ''/**'' @ nl @
            '' * '' @ warning_sign @ '' QUARANTINED CODE'' @ nl @
            '' * Reason: '' @ reason @ nl @
            '' * Timestamp: '' @ stamp @ nl @
            '' * DO NOT EXECUTE'' @ nl @
            '' */'' @ nl @ nl @
            ''/*'' @ nl @ code @ nl @ ''*/'' @ nl
      in (quarantinePath,
          st\<lparr>a_quarantine := AList.update quarantinePath quarantineContent (a_quarantine st),
             a_stages := a_stages st @ [Quarantine]\<rparr>))"

definition called :: "stage list \<Rightarrow> autonomo \<Rightarrow> autonomo" where
  "called ss st = st\<lparr>a_stages := a_stages st @ ss\<rparr>"

definition recordEvolution :: "evolution_record \<Rightarrow> autonomo \<Rightarrow> autonomo" where
  \<comment> \<open>the record is added to the history; its id, metrics and commit are left out\<close>
  "recordEvolution r st =
     called [Recording (ev_success r)] (st\<lparr>a_evolutionLog := a_evolutionLog st @ [r]\<rparr>)"

definition evolution_failed ::
  "world \<Rightarrow> string option \<Rightarrow> string \<Rightarrow> string \<Rightarrow> autonomo \<Rightarrow> (error + evolution) \<times> autonomo" where
  \<comment> \<open>the \<open>catch\<close> of \<open>evolve\<close>: the failure is recorded and the error thrown again\<close>
  "evolution_failed w request mode msg st =
     (Inl (Error msg),
      recordEvolution
        \<lparr>ev_success = False, ev_plan = None, ev_feature = None, ev_mode = mode,
         ev_request = request, ev_error = Some msg, ev_timestamp = w_now w\<rparr> st)"

definition evolve ::
  "world \<Rightarrow> string option \<Rightarrow> string \<Rightarrow> autonomo \<Rightarrow> (error + evolution) \<times> autonomo" where
  "evolve w request mode st0 =
     (let st1 = called [Planning] st0 in
      case w_plan w request mode (a_features st1) of
        Throws msg \<Rightarrow> evolution_failed w request mode msg st1
      | Returns plan \<Rightarrow>
          (let st2 = called [PlanValidation] st1;
               safetyCheck = validatePlan plan
           in if \<not> v_approved safetyCheck
              then evolution_failed w request mode
                     (''Safety validation failed: '' @ v_reason safetyCheck) st2
              else
                (let st3 = called [CodeGeneration] st2 in
                 case w_generateCode w plan of
                   Throws msg \<Rightarrow> evolution_failed w request mode msg st3
                 | Returns generatedCode \<Rightarrow>
                     (let (sandboxResult, stages) =
                            testInSandbox (w_rules w) loadBannedPatterns (w_vm w) generatedCode;
                          st4 = called stages st3
                      in if \<not> rp_safe sandboxResult
                         then evolution_failed w request mode
                                (''Code failed sandbox test: '' @ interpolate (rp_reason sandboxResult)) st4
                         else
                           (case integrateFeature (w_node w) (w_now w) (w_isoHeader w) (w_isoMeta w)
                                   generatedCode plan (a_features st4) of
                              (Inl e, fm) \<Rightarrow>
                                evolution_failed w request mode (message e)
                                  (called [Integration] (st4\<lparr>a_features := fm\<rparr>))
                            | (Inr feature, fm) \<Rightarrow>
                                (let evolutionRecord =
                                       \<lparr>ev_success = True, ev_plan = Some plan, ev_feature = Some feature,
                                        ev_mode = mode, ev_request = request, ev_error = None,
                                        ev_timestamp = w_now w\<rparr>;
                                     st5 = recordEvolution evolutionRecord
                                             (called [Integration] (st4\<lparr>a_features := fm\<rparr>));
                                     st6 = called [Reflection] st5
                                 in case w_reflect w evolutionRecord of
                                      Throws msg \<Rightarrow> evolution_failed w request mode msg st6
                                    | Returns u \<Rightarrow>
                                        (Inr \<lparr>evo_feature_id = f_id feature,
                                              evo_feature_name = f_name feature,
                                              evo_feature_description = f_description feature,
                                              evo_plan = plan\<rparr>, st6)))))))"

section \<open>Example data\<close>

text \<open>
  The artifact of the spec's scenario C, whose entry point returns \<open>{doubled: input.value*2}\<close>:
  its code, its plan, the module it loads as, and a runtime that loads the persisted
  artifact as that module. The entry point is given on inputs whose \<open>value\<close> is a number
  (the product is the number doubled) and on the other inputs as not-a-number.
\<close>

definition doubler :: callee where
  "doubler input =
     (case js_get input ''value'' of
        Inl e \<Rightarrow> Rejects 0 (message e)
      | Inr (JNum n) \<Rightarrow> Resolves 1 (JObj [(''doubled'', JNum (n * 2))])
      | Inr v \<Rightarrow> Resolves 1 (JObj [(''doubled'', JNaN)]))"

definition doubler_code :: string where
  "doubler_code = ''return { execute: async (input) => ({ doubled: input.value * 2 }) };''"

definition doubler_plan :: plan where
  "doubler_plan =
     \<lparr>p_id = Some ''plan-42'', p_title = Some ''Doubler'',
      p_description = Some ''Doubles the value it is given'', p_category = Some ''utility'',
      p_complexity = Some ''low'', p_estimatedLOC = None, p_dependencies = None, p_files = None,
      p_safetyConsiderations = None\<rparr>"

definition stamp_2025 :: string where
  "stamp_2025 = ''2025-01-01T00:00:00.000Z''"

definition healthy :: "unit \<Rightarrow> jsval outcome" where
  "healthy u = Returns (JObj [(''status'', JStr ''healthy''), (''name'', JStr ''Doubler''), (''uptime'', JNum 1)])"

definition plain_module :: module where
  \<comment> \<open>an object with no property the registry looks at\<close>
  "plain_module =
     \<lparr>m_metadata = None, m_self = None, m_execute = None, m_handler = None, m_get = False,
      m_process = False, m_validate = False, m_transform = False, m_routes = None,
      m_schedule = False, m_webhook = False, m_health = None\<rparr>"

definition plan_metadata :: "plan \<Rightarrow> string \<Rightarrow> metadata" where
  \<comment> \<open>the metadata block of the wrapper, for a plan whose texts stand for themselves between quotes\<close>
  "plan_metadata plan generated =
     \<lparr>md_id = Some (interpolate (p_id plan)), md_title = Some (interpolate (p_title plan)),
      md_description = Some (interpolate (p_description plan)),
      md_category = Some (interpolate (p_category plan)),
      md_complexity = Some (interpolate (p_complexity plan)), md_generated = Some generated\<rparr>"

definition doubler_module :: module where
  "doubler_module =
     plain_module\<lparr>m_metadata := Some (plan_metadata doubler_plan stamp_2025),
                  m_execute := Some doubler, m_health := Some healthy\<rparr>"

definition example_uuid :: "nat \<Rightarrow> string" where
  "example_uuid n = ''uuid-'' @ show_nat n"

definition doubler_node :: node where
  "doubler_node =
     \<lparr>require = (\<lambda>text. if text = wrapFeatureCode doubler_code doubler_plan stamp_2025 stamp_2025
                         then Inr doubler_module else Inl (Error ''Unexpected token'')),
      uuidv4 = example_uuid\<rparr>"

definition empty_manager :: manager where
  "empty_manager = \<lparr>fm_features = [], fm_files = [], fm_uuids = 0\<rparr>"

text \<open>
  Node's CommonJS loader on the doubler's persisted artifact. Node evaluates a CommonJS
  file as the body of a function with the parameters \<open>exports\<close>, \<open>require\<close>, \<open>module\<close>,
  \<open>__filename\<close> and \<open>__dirname\<close>; the wrapper's own \<open>let exports;\<close> stands at the top level
  of that body and declares a parameter's name again, which is an early SyntaxError, so
  \<open>require\<close> throws before any statement of the file runs.
\<close>

definition commonjs_node :: node where
  "commonjs_node =
     \<lparr>require = (\<lambda>text. if text = wrapFeatureCode doubler_code doubler_plan stamp_2025 stamp_2025
                         then Inl (Error (''Identifier '' @ sq @ ''exports'' @ sq @
                                          '' has already been declared''))
                         else Inl (Error ''Unexpected token'')),
      uuidv4 = example_uuid\<rparr>"

text \<open>
  A plan with an empty id, and a runtime that loads its persisted artifact with the empty
  id in the metadata block.
\<close>

definition anonymous_plan :: plan where
  "anonymous_plan = doubler_plan\<lparr>p_id := Some []\<rparr>"

definition anonymous_module :: module where
  "anonymous_module = doubler_module\<lparr>m_metadata := Some (plan_metadata anonymous_plan stamp_2025)\<rparr>"


text \<open>
  An artifact whose entry point throws, and one whose health probe reports a degraded
  state.
\<close>

definition thrower :: callee where
  "thrower input = Rejects 0 ''boom''"


definition thrower_module :: module where
  "thrower_module = doubler_module\<lparr>m_execute := Some thrower\<rparr>"


definition degraded :: "unit \<Rightarrow> jsval outcome" where
  "degraded u = Returns (JObj [(''status'', JStr ''degraded'')])"

definition degraded_module :: module where
  "degraded_module = doubler_module\<lparr>m_health := Some degraded\<rparr>"


text \<open>
  The feature the registry builds from a module that carries the metadata of the example
  plan, registered at the time 1000.
\<close>

definition example_feature :: "module \<Rightarrow> feature" where
  "example_feature m =
     \<lparr>f_id = ''plan-42'', f_name = ''Doubler'', f_description = ''Doubles the value it is given'',
      f_category = ''utility'', f_complexity = ''low'',
      f_filePath = ''dynamic/feature-1000-doubler.js'', f_filename = ''feature-1000-doubler.js'',
      f_module = m, f_created = Generated stamp_2025,
      f_lastModified = 1000, f_lastUsed = None, f_usageCount = 0, f_active = True,
      f_routes = extractRoutes m, f_capabilities = analyzeCapabilities m\<rparr>"

definition deactivated_feature :: feature where
  "deactivated_feature = (example_feature doubler_module)\<lparr>f_active := False\<rparr>"

text \<open>
  The plan of the spec's scenario A exactly as it is written there, and the plan of the
  repository's own test of the suspicious keywords, which adds the id and a description of
  the length that the schema asks for.
\<close>

definition scenario_plan :: plan where
  "scenario_plan =
     \<lparr>p_id = None, p_title = Some ''Hack the system'', p_description = Some ''...'',
      p_category = Some ''utility'', p_complexity = Some ''low'', p_estimatedLOC = None,
      p_dependencies = None, p_files = None, p_safetyConsiderations = None\<rparr>"

definition hack_plan :: plan where
  "hack_plan =
     scenario_plan\<lparr>p_id := Some ''hack-plan'', p_description := Some ''This will hack something''\<rparr>"

text \<open>
  A world for an evolution cycle in which the planner returns the given plan, the coder
  the given code, and the sandbox run of any code is the given run; and the state of a
  system that has not evolved yet.
\<close>

definition example_world :: "plan \<Rightarrow> string \<Rightarrow> vm_run \<Rightarrow> world" where
  "example_world plan code run =
     \<lparr>w_node = doubler_node, w_rules = loadSafetyRules,
      w_plan = (\<lambda>request mode fm. Returns plan),
      w_generateCode = (\<lambda>p. Returns code),
      w_vm = (\<lambda>c. \<lparr>sr_startTime = 1000, sr_startHeap = 4096, sr_run = run\<rparr>),
      w_reflect = (\<lambda>r. Returns ()),
      w_now = 1000, w_isoHeader = stamp_2025, w_isoMeta = stamp_2025\<rparr>"

definition example_state :: autonomo where
  "example_state =
     \<lparr>a_features = empty_manager, a_evolutionLog = [], a_quarantine = [], a_stages = []\<rparr>"

definition failure_record :: "string \<Rightarrow> evolution_record" where
  \<comment> \<open>the record of a failed cycle of the example world, requested as "double" in guided mode\<close>
  "failure_record msg =
     \<lparr>ev_success = False, ev_plan = None, ev_feature = None, ev_mode = ''guided'',
      ev_request = Some ''double'', ev_error = Some msg, ev_timestamp = 1000\<rparr>"

section \<open>Facts about loading and registering\<close>





lemma starts_with_iff: "starts_with s k \<longleftrightarrow> (\<exists>q. s = k @ q)"
  by (induction s k rule: starts_with.induct) auto

lemma includes_str_iff: "includes_str s k \<longleftrightarrow> (\<exists>p q. s = p @ k @ q)"
proof (induction s)
  case Nil
  then show ?case by auto
next
  case (Cons c s)
  show ?case
  proof
    assume "includes_str (c # s) k"
    then consider "starts_with (c # s) k" | "includes_str s k" by auto
    then show "\<exists>p q. c # s = p @ k @ q"
    proof cases
      case 1
      then obtain q where "c # s = k @ q" by (auto simp add: starts_with_iff)
      then have "c # s = [] @ k @ q" by simp
      then show ?thesis by blast
    next
      case 2
      with Cons.IH obtain p q where "s = p @ k @ q" by blast
      then have "c # s = (c # p) @ k @ q" by simp
      then show ?thesis by blast
    qed
  next
    assume "\<exists>p q. c # s = p @ k @ q"
    then obtain p q where e: "c # s = p @ k @ q" by blast
    show "includes_str (c # s) k"
    proof (cases p)
      case Nil
      with e have "starts_with (c # s) k" by (auto simp add: starts_with_iff)
      then show ?thesis by simp
    next
      case (Cons a p')
      with e have "s = p' @ k @ q" by simp
      with Cons.IH have "includes_str s k" by blast
      then show ?thesis by simp
    qed
  qed
qed

lemma includes_str_within: "includes_str b k \<Longrightarrow> includes_str (a @ b @ c) k"
proof -
  assume "includes_str b k"
  then obtain p q where "b = p @ k @ q" by (auto simp add: includes_str_iff)
  then have "a @ b @ c = (a @ p) @ k @ (q @ c)" by simp
  then show ?thesis unfolding includes_str_iff by blast
qed

lemma includes_str_skip: "includes_str r k \<Longrightarrow> includes_str (x @ r) k"
  using includes_str_within [of r k x "[]"] by simp

lemma includes_str_here: "includes_str (k1 @ k2 @ k3 @ r) (k1 @ k2 @ k3)"
  unfolding includes_str_iff by (intro exI [of _ "[]"] exI [of _ r]) simp

lemma testFeature_Inr:
  "testFeature feature = (Inr w, feature') \<Longrightarrow> feature' = feature"
  by (auto simp add: testFeature_def split: option.splits outcome.splits)

lemma loadFeature_Inr:
  assumes "loadFeature nd filename fm = (Inr feature, fm2)"
  shows "\<exists>stored m.
           map_of (fm_files fm) filename = Some stored \<and>
           require nd (fl_content stored) = Inr m \<and>
           f_module feature = m \<and>
           f_id feature = fst (feature_id nd (fm_uuids fm) m) \<and>
           f_category feature = or_else (md_field md_category m) ''utility'' \<and>
           f_complexity feature = or_else (md_field md_complexity m) ''medium'' \<and>
           f_capabilities feature = analyzeCapabilities m \<and>
           f_filename feature = filename \<and>
           f_active feature \<and> f_usageCount feature = 0 \<and> f_lastUsed feature = None \<and>
           fm_files fm2 = fm_files fm \<and>
           fm_features fm2 = AList.update (f_id feature) feature (fm_features fm)"
  using assms
  by (auto simp add: loadFeature_def Let_def split: option.splits sum.splits prod.splits)

lemma loadFeature_files:
  "fm_files (snd (loadFeature nd filename fm)) = fm_files fm"
  by (auto simp add: loadFeature_def Let_def split: option.splits sum.splits prod.splits)

lemma integrateFeature_Inr:
  assumes "integrateFeature nd now isoHeader isoMeta code plan fm = (Inr feature, fm')"
  shows "\<exists>title. p_title plan = Some title \<and>
           loadFeature nd (feature_filename now title)
             (fm\<lparr>fm_files := write_file (feature_filename now title)
                                 (wrapFeatureCode code plan isoHeader isoMeta) now (fm_files fm)\<rparr>) =
           (Inr feature, fm')"
  using assms
  by (auto simp add: integrateFeature_def Let_def dest: testFeature_Inr
        split: option.splits sum.splits prod.splits)

lemma load_files_files: "fm_files (load_files nd names fm) = fm_files fm"
  by (induction names arbitrary: fm) (auto simp add: loadFeature_files)






subsection \<open>The examples, evaluated\<close>

lemma example_filename: "feature_filename 1000 ''Doubler'' = ''feature-1000-doubler.js''"
  by code_simp



lemmas example_defs = doubler_plan_def anonymous_plan_def plan_metadata_def interpolate_def
  doubler_module_def anonymous_module_def plain_module_def thrower_module_def degraded_module_def
  example_feature_def empty_manager_def stamp_2025_def

lemma example_title: "p_title doubler_plan = Some ''Doubler''" "p_title anonymous_plan = Some ''Doubler''"
  by (simp_all add: doubler_plan_def anonymous_plan_def)

lemma registered_doubler:
  "integrateFeature doubler_node 1000 stamp_2025 stamp_2025 doubler_code doubler_plan empty_manager =
     (Inr (example_feature doubler_module),
      \<lparr>fm_features = [(''plan-42'', example_feature doubler_module)],
       fm_files = [(''feature-1000-doubler.js'',
          \<lparr>fl_content = wrapFeatureCode doubler_code doubler_plan stamp_2025 stamp_2025,
           fl_birthtime = 1000, fl_mtime = 1000\<rparr>)], fm_uuids = 0\<rparr>)"
  by (simp add: integrateFeature_def example_title example_filename write_file_def loadFeature_def
        doubler_node_def feature_id_def md_field_def or_else_def Let_def testFeature_def
        health_check_def healthy_def js_get_def race_timeout_def doubler_def test_input_def
        example_defs)








section \<open>Invoking a feature\<close>

text \<open>
  Claim C3. For every feature id and every input, invoking an id that is not in the registry
  fails with the error "Feature not found: id", and invoking a feature whose \<open>active\<close> flag
  is false fails with the error "Feature is inactive: name". Both are error results, and
  the registry after the call is the registry before it: the feature found under the id is
  the same, so its \<open>usageCount\<close> is not incremented and its \<open>lastUsed\<close> is not set.
\<close>

theorem executeFeature_rejects_unknown_and_inactive:
  "(map_of features featureId = None \<longrightarrow>
      executeFeature now features featureId input =
        (Some (Inl (Error (''Feature not found: '' @ featureId))), features)) \<and>
   (\<forall>feature. map_of features featureId = Some feature \<and> \<not> f_active feature \<longrightarrow>
      executeFeature now features featureId input =
        (Some (Inl (Error (''Feature is inactive: '' @ f_name feature))), features) \<and>
      map_of (snd (executeFeature now features featureId input)) featureId = Some feature)"
  by (simp add: executeFeature_def Let_def)

theorem executeFeature_rejects_unknown_and_inactive_witness:
  "map_of [(''plan-42'', deactivated_feature)] ''nope'' = None \<and>
   executeFeature 7 [(''plan-42'', deactivated_feature)] ''nope'' (JObj []) =
     (Some (Inl (Error ''Feature not found: nope'')), [(''plan-42'', deactivated_feature)]) \<and>
   map_of [(''plan-42'', deactivated_feature)] ''plan-42'' = Some deactivated_feature \<and>
   \<not> f_active deactivated_feature \<and>
   executeFeature 7 [(''plan-42'', deactivated_feature)] ''plan-42'' (JObj []) =
     (Some (Inl (Error ''Feature is inactive: Doubler'')), [(''plan-42'', deactivated_feature)]) \<and>
   f_usageCount deactivated_feature = 0 \<and> f_lastUsed deactivated_feature = None"
  using executeFeature_rejects_unknown_and_inactive
          [of "[(''plan-42'', deactivated_feature)]" "''nope''" 7 "JObj []"]
        executeFeature_rejects_unknown_and_inactive
          [of "[(''plan-42'', deactivated_feature)]" "''plan-42''" 7 "JObj []"]
  by (simp add: deactivated_feature_def example_feature_def)

text \<open>
  Claim C10. For every invocation of a feature that is in the registry and active, the
  registry sets \<open>lastUsed\<close> and increments \<open>usageCount\<close> before it dispatches to the entry
  point, and nothing is rolled back: whatever the entry point does (it returns, it throws,
  it never settles), the registry afterwards holds, under the id, the feature with
  \<open>lastUsed\<close> set to the time of the call and \<open>usageCount\<close> one higher, every other field
  of the feature as before, and every other entry as before. When the entry point throws,
  the call fails with "Feature execution failed: message".
\<close>

theorem executeFeature_usage_frame:
  assumes "map_of features featureId = Some feature" and "f_active feature"
  shows "snd (executeFeature now features featureId input) =
           AList.update featureId
             (feature\<lparr>f_lastUsed := Some now, f_usageCount := f_usageCount feature + 1\<rparr>) features \<and>
         map_of (snd (executeFeature now features featureId input)) featureId =
           Some (feature\<lparr>f_lastUsed := Some now, f_usageCount := f_usageCount feature + 1\<rparr>) \<and>
         (\<forall>k. k \<noteq> featureId \<longrightarrow>
           map_of (snd (executeFeature now features featureId input)) k = map_of features k) \<and>
         (\<forall>ms msg. dispatch (f_module feature) (default_input input) = Rejects ms msg \<longrightarrow>
           fst (executeFeature now features featureId input) =
             Some (Inl (Error (''Feature execution failed: '' @ msg))))"
  using assms
  by (auto simp add: executeFeature_def Let_def track_usage_def update_conv' split: promise.splits)

theorem executeFeature_usage_frame_witness:
  "map_of [(''plan-42'', example_feature thrower_module)] ''plan-42'' = Some (example_feature thrower_module) \<and>
   f_active (example_feature thrower_module) \<and>
   dispatch thrower_module (JObj []) = Rejects 0 ''boom'' \<and>
   executeFeature 7 [(''plan-42'', example_feature thrower_module)] ''plan-42'' (JObj []) =
     (Some (Inl (Error ''Feature execution failed: boom'')),
      [(''plan-42'', (example_feature thrower_module)\<lparr>f_lastUsed := Some 7, f_usageCount := 1\<rparr>)])"
  using executeFeature_usage_frame
          [of "[(''plan-42'', example_feature thrower_module)]" "''plan-42''"
              "example_feature thrower_module" 7 "JObj []"]
  by (simp add: example_feature_def thrower_module_def thrower_def doubler_module_def plain_module_def
        dispatch_def default_input_def prod_eq_iff)

section \<open>Registering a feature\<close>

text \<open>
  With a runtime under which the persisted artifact loads, the registry does what the
  spec's scenario C describes. Take an artifact that exposes \<open>execute(input)\<close> returning
  \<open>{doubled: input.value*2}\<close>: whenever \<open>integrateFeature\<close> (register) has returned its
  feature, invoking that feature once with \<open>{value: 5}\<close> returns the callee's value
  \<open>{doubled: 10}\<close> wrapped with the feature's id and name, the usage count reported and
  stored is 1, and \<open>lastUsed\<close> is set to the time of the call.
\<close>

lemma register_then_invoke:
  assumes reg: "integrateFeature nd now isoHeader isoMeta code plan fm = (Inr feature, fm')"
      and exe: "m_execute (f_module feature) = Some execute"
      and dbl: "\<forall>n. \<exists>ms. execute (JObj [(''value'', JNum n)]) =
                         Resolves ms (JObj [(''doubled'', JNum (n * 2))])"
  shows "\<exists>ms. executeFeature t (fm_features fm') (f_id feature) (JObj [(''value'', JNum 5)]) =
           (Some (Inr \<lparr>er_success = True, er_result = JObj [(''doubled'', JNum 10)],
                       er_feature = \<lparr>ef_id = f_id feature, ef_name = f_name feature,
                                     ef_usageCount = 1\<rparr>,
                       er_timestamp = t + ms\<rparr>),
            AList.update (f_id feature) (feature\<lparr>f_lastUsed := Some t, f_usageCount := 1\<rparr>)
              (fm_features fm'))"
proof -
  from integrateFeature_Inr [OF reg] obtain title where
    ld: "loadFeature nd (feature_filename now title)
             (fm\<lparr>fm_files := write_file (feature_filename now title)
                                 (wrapFeatureCode code plan isoHeader isoMeta) now (fm_files fm)\<rparr>) =
           (Inr feature, fm')"
    by blast
  from loadFeature_Inr [OF ld] have
    act: "f_active feature" and cnt: "f_usageCount feature = 0" and
    st: "map_of (fm_features fm') (f_id feature) = Some feature"
    by (auto simp add: update_conv')
  from dbl obtain ms where
    r: "execute (JObj [(''value'', JNum 5)]) = Resolves ms (JObj [(''doubled'', JNum (5 * 2))])"
    by blast
  show ?thesis
    using act cnt st exe r
    by (auto simp add: executeFeature_def Let_def default_input_def track_usage_def dispatch_def
          intro!: exI [of _ ms])
qed

lemma register_then_invoke_example:
  "integrateFeature doubler_node 1000 stamp_2025 stamp_2025 doubler_code doubler_plan empty_manager =
     (Inr (example_feature doubler_module),
      \<lparr>fm_features = [(''plan-42'', example_feature doubler_module)],
       fm_files = [(''feature-1000-doubler.js'',
          \<lparr>fl_content = wrapFeatureCode doubler_code doubler_plan stamp_2025 stamp_2025,
           fl_birthtime = 1000, fl_mtime = 1000\<rparr>)], fm_uuids = 0\<rparr>) \<and>
   m_execute (f_module (example_feature doubler_module)) = Some doubler \<and>
   (\<exists>ms. executeFeature 2000 [(''plan-42'', example_feature doubler_module)] ''plan-42''
           (JObj [(''value'', JNum 5)]) =
      (Some (Inr \<lparr>er_success = True, er_result = JObj [(''doubled'', JNum 10)],
                  er_feature = \<lparr>ef_id = ''plan-42'', ef_name = ''Doubler'', ef_usageCount = 1\<rparr>,
                  er_timestamp = 2000 + ms\<rparr>),
       [(''plan-42'', (example_feature doubler_module)\<lparr>f_lastUsed := Some 2000, f_usageCount := 1\<rparr>)]))"
proof -
  have e: "m_execute (f_module (example_feature doubler_module)) = Some doubler"
    by (simp add: example_defs)
  have d: "\<forall>n. \<exists>ms. doubler (JObj [(''value'', JNum n)]) =
                     Resolves ms (JObj [(''doubled'', JNum (n * 2))])"
    by (simp add: doubler_def js_get_def)
  show ?thesis
    using register_then_invoke [OF registered_doubler e d, of 2000] registered_doubler e
    by (simp add: example_feature_def)
qed

text \<open>
  Claim C4, at the scenario's input under Node. Every file \<open>wrapFeatureCode\<close> writes has
  the line \<open>let exports;\<close>, whatever the code and the plan. Node's CommonJS loader refuses
  the doubler's file for it (\<open>commonjs_node\<close>), so registering the doubler writes the file,
  then fails with the loader's error and leaves the registry empty; invoking the id
  \<open>plan-42\<close> with \<open>{value: 5}\<close> afterwards fails with "Feature not found: plan-42", where
  the scenario expects \<open>{doubled: 10}\<close> and a usage count of 1.
\<close>

theorem register_rejected_by_commonjs_loader:
  "includes_str (wrapFeatureCode code plan isoHeader isoMeta) (nl @ ''let exports;'' @ nl) \<and>
   integrateFeature commonjs_node 1000 stamp_2025 stamp_2025 doubler_code doubler_plan empty_manager =
     (Inl (Error (''Identifier '' @ sq @ ''exports'' @ sq @ '' has already been declared'')),
      \<lparr>fm_features = [],
       fm_files = [(''feature-1000-doubler.js'',
          \<lparr>fl_content = wrapFeatureCode doubler_code doubler_plan stamp_2025 stamp_2025,
           fl_birthtime = 1000, fl_mtime = 1000\<rparr>)], fm_uuids = 0\<rparr>) \<and>
   executeFeature 2000
       (fm_features (snd (integrateFeature commonjs_node 1000 stamp_2025 stamp_2025
                            doubler_code doubler_plan empty_manager)))
       ''plan-42'' (JObj [(''value'', JNum 5)]) =
     (Some (Inl (Error ''Feature not found: plan-42'')), [])"
proof -
  have line: "includes_str (wrapFeatureCode code plan isoHeader isoMeta) (nl @ ''let exports;'' @ nl)"
    unfolding wrapFeatureCode_def
    by (rule includes_str_here | rule includes_str_skip)+
  have reg: "integrateFeature commonjs_node 1000 stamp_2025 stamp_2025 doubler_code doubler_plan
               empty_manager =
     (Inl (Error (''Identifier '' @ sq @ ''exports'' @ sq @ '' has already been declared'')),
      \<lparr>fm_features = [],
       fm_files = [(''feature-1000-doubler.js'',
          \<lparr>fl_content = wrapFeatureCode doubler_code doubler_plan stamp_2025 stamp_2025,
           fl_birthtime = 1000, fl_mtime = 1000\<rparr>)], fm_uuids = 0\<rparr>)"
    by (simp add: integrateFeature_def example_title example_filename write_file_def loadFeature_def
          commonjs_node_def Let_def example_defs)
  have inv: "executeFeature 2000 [] ''plan-42'' (JObj [(''value'', JNum 5)]) =
     (Some (Inl (Error ''Feature not found: plan-42'')), [])"
    by (simp add: executeFeature_def Let_def)
  show ?thesis
    unfolding reg snd_conv using line inv by simp
qed







section \<open>Facts about the safety manager\<close>

subsection \<open>Characters\<close>

lemma lower_char_ascii:
  "lower_char (CHR 0x20) = CHR 0x20" "lower_char (CHR 0x21) = CHR 0x21" "lower_char (CHR 0x22) = CHR 0x22"
  "lower_char (CHR 0x23) = CHR 0x23" "lower_char (CHR 0x24) = CHR 0x24" "lower_char (CHR 0x25) = CHR 0x25"
  "lower_char (CHR 0x26) = CHR 0x26" "lower_char (CHR 0x27) = CHR 0x27" "lower_char (CHR 0x28) = CHR 0x28"
  "lower_char (CHR 0x29) = CHR 0x29" "lower_char (CHR 0x2A) = CHR 0x2A" "lower_char (CHR 0x2B) = CHR 0x2B"
  "lower_char (CHR 0x2C) = CHR 0x2C" "lower_char (CHR 0x2D) = CHR 0x2D" "lower_char (CHR 0x2E) = CHR 0x2E"
  "lower_char (CHR 0x2F) = CHR 0x2F" "lower_char (CHR 0x30) = CHR 0x30" "lower_char (CHR 0x31) = CHR 0x31"
  "lower_char (CHR 0x32) = CHR 0x32" "lower_char (CHR 0x33) = CHR 0x33" "lower_char (CHR 0x34) = CHR 0x34"
  "lower_char (CHR 0x35) = CHR 0x35" "lower_char (CHR 0x36) = CHR 0x36" "lower_char (CHR 0x37) = CHR 0x37"
  "lower_char (CHR 0x38) = CHR 0x38" "lower_char (CHR 0x39) = CHR 0x39" "lower_char (CHR 0x3A) = CHR 0x3A"
  "lower_char (CHR 0x3B) = CHR 0x3B" "lower_char (CHR 0x3C) = CHR 0x3C" "lower_char (CHR 0x3D) = CHR 0x3D"
  "lower_char (CHR 0x3E) = CHR 0x3E" "lower_char (CHR 0x3F) = CHR 0x3F" "lower_char (CHR 0x40) = CHR 0x40"
  "lower_char (CHR 0x41) = CHR 0x61" "lower_char (CHR 0x42) = CHR 0x62" "lower_char (CHR 0x43) = CHR 0x63"
  "lower_char (CHR 0x44) = CHR 0x64" "lower_char (CHR 0x45) = CHR 0x65" "lower_char (CHR 0x46) = CHR 0x66"
  "lower_char (CHR 0x47) = CHR 0x67" "lower_char (CHR 0x48) = CHR 0x68" "lower_char (CHR 0x49) = CHR 0x69"
  "lower_char (CHR 0x4A) = CHR 0x6A" "lower_char (CHR 0x4B) = CHR 0x6B" "lower_char (CHR 0x4C) = CHR 0x6C"
  "lower_char (CHR 0x4D) = CHR 0x6D" "lower_char (CHR 0x4E) = CHR 0x6E" "lower_char (CHR 0x4F) = CHR 0x6F"
  "lower_char (CHR 0x50) = CHR 0x70" "lower_char (CHR 0x51) = CHR 0x71" "lower_char (CHR 0x52) = CHR 0x72"
  "lower_char (CHR 0x53) = CHR 0x73" "lower_char (CHR 0x54) = CHR 0x74" "lower_char (CHR 0x55) = CHR 0x75"
  "lower_char (CHR 0x56) = CHR 0x76" "lower_char (CHR 0x57) = CHR 0x77" "lower_char (CHR 0x58) = CHR 0x78"
  "lower_char (CHR 0x59) = CHR 0x79" "lower_char (CHR 0x5A) = CHR 0x7A" "lower_char (CHR 0x5B) = CHR 0x5B"
  "lower_char (CHR 0x5C) = CHR 0x5C" "lower_char (CHR 0x5D) = CHR 0x5D" "lower_char (CHR 0x5E) = CHR 0x5E"
  "lower_char (CHR 0x5F) = CHR 0x5F" "lower_char (CHR 0x60) = CHR 0x60" "lower_char (CHR 0x61) = CHR 0x61"
  "lower_char (CHR 0x62) = CHR 0x62" "lower_char (CHR 0x63) = CHR 0x63" "lower_char (CHR 0x64) = CHR 0x64"
  "lower_char (CHR 0x65) = CHR 0x65" "lower_char (CHR 0x66) = CHR 0x66" "lower_char (CHR 0x67) = CHR 0x67"
  "lower_char (CHR 0x68) = CHR 0x68" "lower_char (CHR 0x69) = CHR 0x69" "lower_char (CHR 0x6A) = CHR 0x6A"
  "lower_char (CHR 0x6B) = CHR 0x6B" "lower_char (CHR 0x6C) = CHR 0x6C" "lower_char (CHR 0x6D) = CHR 0x6D"
  "lower_char (CHR 0x6E) = CHR 0x6E" "lower_char (CHR 0x6F) = CHR 0x6F" "lower_char (CHR 0x70) = CHR 0x70"
  "lower_char (CHR 0x71) = CHR 0x71" "lower_char (CHR 0x72) = CHR 0x72" "lower_char (CHR 0x73) = CHR 0x73"
  "lower_char (CHR 0x74) = CHR 0x74" "lower_char (CHR 0x75) = CHR 0x75" "lower_char (CHR 0x76) = CHR 0x76"
  "lower_char (CHR 0x77) = CHR 0x77" "lower_char (CHR 0x78) = CHR 0x78" "lower_char (CHR 0x79) = CHR 0x79"
  "lower_char (CHR 0x7A) = CHR 0x7A" "lower_char (CHR 0x7B) = CHR 0x7B" "lower_char (CHR 0x7C) = CHR 0x7C"
  "lower_char (CHR 0x7D) = CHR 0x7D" "lower_char (CHR 0x7E) = CHR 0x7E" "lower_char (CHR 0x0A) = CHR 0x0A"
  by (simp_all add: lower_char_def is_upper_def char_of_def bit_Suc_0_iff)

lemma is_space_ascii:
  "is_space (CHR 0x20) = True" "is_space (CHR 0x21) = False" "is_space (CHR 0x22) = False"
  "is_space (CHR 0x23) = False" "is_space (CHR 0x24) = False" "is_space (CHR 0x25) = False"
  "is_space (CHR 0x26) = False" "is_space (CHR 0x27) = False" "is_space (CHR 0x28) = False"
  "is_space (CHR 0x29) = False" "is_space (CHR 0x2A) = False" "is_space (CHR 0x2B) = False"
  "is_space (CHR 0x2C) = False" "is_space (CHR 0x2D) = False" "is_space (CHR 0x2E) = False"
  "is_space (CHR 0x2F) = False" "is_space (CHR 0x30) = False" "is_space (CHR 0x31) = False"
  "is_space (CHR 0x32) = False" "is_space (CHR 0x33) = False" "is_space (CHR 0x34) = False"
  "is_space (CHR 0x35) = False" "is_space (CHR 0x36) = False" "is_space (CHR 0x37) = False"
  "is_space (CHR 0x38) = False" "is_space (CHR 0x39) = False" "is_space (CHR 0x3A) = False"
  "is_space (CHR 0x3B) = False" "is_space (CHR 0x3C) = False" "is_space (CHR 0x3D) = False"
  "is_space (CHR 0x3E) = False" "is_space (CHR 0x3F) = False" "is_space (CHR 0x40) = False"
  "is_space (CHR 0x41) = False" "is_space (CHR 0x42) = False" "is_space (CHR 0x43) = False"
  "is_space (CHR 0x44) = False" "is_space (CHR 0x45) = False" "is_space (CHR 0x46) = False"
  "is_space (CHR 0x47) = False" "is_space (CHR 0x48) = False" "is_space (CHR 0x49) = False"
  "is_space (CHR 0x4A) = False" "is_space (CHR 0x4B) = False" "is_space (CHR 0x4C) = False"
  "is_space (CHR 0x4D) = False" "is_space (CHR 0x4E) = False" "is_space (CHR 0x4F) = False"
  "is_space (CHR 0x50) = False" "is_space (CHR 0x51) = False" "is_space (CHR 0x52) = False"
  "is_space (CHR 0x53) = False" "is_space (CHR 0x54) = False" "is_space (CHR 0x55) = False"
  "is_space (CHR 0x56) = False" "is_space (CHR 0x57) = False" "is_space (CHR 0x58) = False"
  "is_space (CHR 0x59) = False" "is_space (CHR 0x5A) = False" "is_space (CHR 0x5B) = False"
  "is_space (CHR 0x5C) = False" "is_space (CHR 0x5D) = False" "is_space (CHR 0x5E) = False"
  "is_space (CHR 0x5F) = False" "is_space (CHR 0x60) = False" "is_space (CHR 0x61) = False"
  "is_space (CHR 0x62) = False" "is_space (CHR 0x63) = False" "is_space (CHR 0x64) = False"
  "is_space (CHR 0x65) = False" "is_space (CHR 0x66) = False" "is_space (CHR 0x67) = False"
  "is_space (CHR 0x68) = False" "is_space (CHR 0x69) = False" "is_space (CHR 0x6A) = False"
  "is_space (CHR 0x6B) = False" "is_space (CHR 0x6C) = False" "is_space (CHR 0x6D) = False"
  "is_space (CHR 0x6E) = False" "is_space (CHR 0x6F) = False" "is_space (CHR 0x70) = False"
  "is_space (CHR 0x71) = False" "is_space (CHR 0x72) = False" "is_space (CHR 0x73) = False"
  "is_space (CHR 0x74) = False" "is_space (CHR 0x75) = False" "is_space (CHR 0x76) = False"
  "is_space (CHR 0x77) = False" "is_space (CHR 0x78) = False" "is_space (CHR 0x79) = False"
  "is_space (CHR 0x7A) = False" "is_space (CHR 0x7B) = False" "is_space (CHR 0x7C) = False"
  "is_space (CHR 0x7D) = False" "is_space (CHR 0x7E) = False" "is_space (CHR 0x0A) = True"
  by (simp_all add: is_space_def)

lemma is_alnum_ascii:
  "is_alnum (CHR 0x20) = False" "is_alnum (CHR 0x21) = False" "is_alnum (CHR 0x22) = False"
  "is_alnum (CHR 0x23) = False" "is_alnum (CHR 0x24) = False" "is_alnum (CHR 0x25) = False"
  "is_alnum (CHR 0x26) = False" "is_alnum (CHR 0x27) = False" "is_alnum (CHR 0x28) = False"
  "is_alnum (CHR 0x29) = False" "is_alnum (CHR 0x2A) = False" "is_alnum (CHR 0x2B) = False"
  "is_alnum (CHR 0x2C) = False" "is_alnum (CHR 0x2D) = False" "is_alnum (CHR 0x2E) = False"
  "is_alnum (CHR 0x2F) = False" "is_alnum (CHR 0x30) = True" "is_alnum (CHR 0x31) = True"
  "is_alnum (CHR 0x32) = True" "is_alnum (CHR 0x33) = True" "is_alnum (CHR 0x34) = True"
  "is_alnum (CHR 0x35) = True" "is_alnum (CHR 0x36) = True" "is_alnum (CHR 0x37) = True"
  "is_alnum (CHR 0x38) = True" "is_alnum (CHR 0x39) = True" "is_alnum (CHR 0x3A) = False"
  "is_alnum (CHR 0x3B) = False" "is_alnum (CHR 0x3C) = False" "is_alnum (CHR 0x3D) = False"
  "is_alnum (CHR 0x3E) = False" "is_alnum (CHR 0x3F) = False" "is_alnum (CHR 0x40) = False"
  "is_alnum (CHR 0x41) = True" "is_alnum (CHR 0x42) = True" "is_alnum (CHR 0x43) = True"
  "is_alnum (CHR 0x44) = True" "is_alnum (CHR 0x45) = True" "is_alnum (CHR 0x46) = True"
  "is_alnum (CHR 0x47) = True" "is_alnum (CHR 0x48) = True" "is_alnum (CHR 0x49) = True"
  "is_alnum (CHR 0x4A) = True" "is_alnum (CHR 0x4B) = True" "is_alnum (CHR 0x4C) = True"
  "is_alnum (CHR 0x4D) = True" "is_alnum (CHR 0x4E) = True" "is_alnum (CHR 0x4F) = True"
  "is_alnum (CHR 0x50) = True" "is_alnum (CHR 0x51) = True" "is_alnum (CHR 0x52) = True"
  "is_alnum (CHR 0x53) = True" "is_alnum (CHR 0x54) = True" "is_alnum (CHR 0x55) = True"
  "is_alnum (CHR 0x56) = True" "is_alnum (CHR 0x57) = True" "is_alnum (CHR 0x58) = True"
  "is_alnum (CHR 0x59) = True" "is_alnum (CHR 0x5A) = True" "is_alnum (CHR 0x5B) = False"
  "is_alnum (CHR 0x5C) = False" "is_alnum (CHR 0x5D) = False" "is_alnum (CHR 0x5E) = False"
  "is_alnum (CHR 0x5F) = False" "is_alnum (CHR 0x60) = False" "is_alnum (CHR 0x61) = True"
  "is_alnum (CHR 0x62) = True" "is_alnum (CHR 0x63) = True" "is_alnum (CHR 0x64) = True"
  "is_alnum (CHR 0x65) = True" "is_alnum (CHR 0x66) = True" "is_alnum (CHR 0x67) = True"
  "is_alnum (CHR 0x68) = True" "is_alnum (CHR 0x69) = True" "is_alnum (CHR 0x6A) = True"
  "is_alnum (CHR 0x6B) = True" "is_alnum (CHR 0x6C) = True" "is_alnum (CHR 0x6D) = True"
  "is_alnum (CHR 0x6E) = True" "is_alnum (CHR 0x6F) = True" "is_alnum (CHR 0x70) = True"
  "is_alnum (CHR 0x71) = True" "is_alnum (CHR 0x72) = True" "is_alnum (CHR 0x73) = True"
  "is_alnum (CHR 0x74) = True" "is_alnum (CHR 0x75) = True" "is_alnum (CHR 0x76) = True"
  "is_alnum (CHR 0x77) = True" "is_alnum (CHR 0x78) = True" "is_alnum (CHR 0x79) = True"
  "is_alnum (CHR 0x7A) = True" "is_alnum (CHR 0x7B) = False" "is_alnum (CHR 0x7C) = False"
  "is_alnum (CHR 0x7D) = False" "is_alnum (CHR 0x7E) = False" "is_alnum (CHR 0x0A) = False"
  by (simp_all add: is_alnum_def)

lemmas rx_eval = ci_def cs_def require_of_def lower_char_ascii is_space_ascii
  is_quote_def first_match_def sq_def dq_def bs_def bt_def

subsection \<open>The loop over the banned patterns\<close>




lemma while_true_report:
  "performStaticAnalysis loadSafetyRules loadBannedPatterns ''while (true) {}'' =
     \<lparr>rp_safe = False, rp_reason = Some ''Banned pattern detected: while (true)'',
      rp_pattern = Some (''/while'' @ bs @ ''s*'' @ bs @ ''('' @ bs @ ''s*true'' @ bs @ ''s*'' @ bs @ '')/gi''),
      rp_metrics = None, rp_error = None\<rparr>"
  by (simp add: performStaticAnalysis_def loadSafetyRules_def loadBannedPatterns_def rx_eval)





subsection \<open>The text of a plan\<close>










lemma hack_plan_rejected:
  "validatePlan hack_plan =
     \<lparr>v_approved = False, v_reason = ''Suspicious keyword detected: hack'', v_severity = ''high''\<rparr>"
  by code_simp

lemma doubler_plan_approved:
  "validatePlan doubler_plan =
     \<lparr>v_approved = True, v_reason = ''Plan passed all safety checks'', v_severity = ''none''\<rparr>"
  by code_simp

subsection \<open>The sandbox test and the evolution cycle\<close>

lemma doubler_code_static:
  "performStaticAnalysis loadSafetyRules loadBannedPatterns doubler_code =
     \<lparr>rp_safe = True, rp_reason = None, rp_pattern = None,
      rp_metrics = Some (StaticMetrics
        \<lparr>cx_lines = 1, cx_functionCount = 0, cx_loopCount = 0, cx_conditionalCount = 0,
         cx_risk = ''low'', cx_reason = ''Code complexity is acceptable''\<rparr>),
      rp_error = None\<rparr>"
  by (simp add: performStaticAnalysis_def loadSafetyRules_def loadBannedPatterns_def rx_eval
        doubler_code_def analyzeComplexity_def function_rx_def loop_rx_def conditional_rx_def
        is_word_def is_alnum_ascii)

lemma boom_run:
  "performDynamicTesting loadSafetyRules \<lparr>sr_startTime = 1000, sr_startHeap = 4096, sr_run = Failed ''boom''\<rparr> =
     \<lparr>rp_safe = False, rp_reason = Some ''Dynamic testing failed: boom'',
      rp_pattern = None, rp_metrics = None, rp_error = Some ''boom''\<rparr>"
  by (simp add: performDynamicTesting_def)

lemma static_unsafe_reason:
  "\<not> rp_safe (performStaticAnalysis rules ps code) \<Longrightarrow>
     \<exists>reason. rp_reason (performStaticAnalysis rules ps code) = Some reason"
  by (auto simp add: performStaticAnalysis_def Let_def split: if_splits option.splits prod.splits)

lemma dynamic_unsafe_reason:
  "\<not> rp_safe (performDynamicTesting rules sr) \<Longrightarrow>
     \<exists>reason. rp_reason (performDynamicTesting rules sr) = Some reason"
  by (auto simp add: performDynamicTesting_def Let_def split: if_splits vm_run.splits)

lemma testInSandbox_static:
  "\<not> rp_safe (performStaticAnalysis rules ps code) \<Longrightarrow>
     testInSandbox rules ps vm code = (performStaticAnalysis rules ps code, [StaticAnalysis])"
  by (simp add: testInSandbox_def)

lemma testInSandbox_dynamic:
  "rp_safe (performStaticAnalysis rules ps code) \<Longrightarrow>
   \<not> rp_safe (performDynamicTesting rules (vm code)) \<Longrightarrow>
     testInSandbox rules ps vm code =
       (performDynamicTesting rules (vm code), [StaticAnalysis, SandboxExecution])"
  by (simp add: testInSandbox_def Let_def)

lemma testInSandbox_no_quarantine:
  "testInSandbox rules ps vm code = (r, ss) \<Longrightarrow> Quarantine \<notin> set ss"
  by (auto simp add: testInSandbox_def Let_def split: if_splits)

lemma evolve_plan_rejected:
  assumes "w_plan w request mode (a_features st) = Returns plan"
      and "\<not> v_approved (validatePlan plan)"
  shows "evolve w request mode st =
           (Inl (Error (''Safety validation failed: '' @ v_reason (validatePlan plan))),
            st\<lparr>a_evolutionLog := a_evolutionLog st @
                   [\<lparr>ev_success = False, ev_plan = None, ev_feature = None, ev_mode = mode,
                     ev_request = request,
                     ev_error = Some (''Safety validation failed: '' @ v_reason (validatePlan plan)),
                     ev_timestamp = w_now w\<rparr>],
               a_stages := a_stages st @ [Planning, PlanValidation, Recording False]\<rparr>)"
  using assms
  by (simp add: evolve_def evolution_failed_def recordEvolution_def called_def Let_def)

lemma evolve_sandbox_rejected:
  assumes "w_plan w request mode (a_features st) = Returns plan"
      and "v_approved (validatePlan plan)"
      and "w_generateCode w plan = Returns code"
      and "testInSandbox (w_rules w) loadBannedPatterns (w_vm w) code = (r, ss)"
      and "\<not> rp_safe r" and "rp_reason r = Some reason"
  shows "evolve w request mode st =
           (Inl (Error (''Code failed sandbox test: '' @ reason)),
            st\<lparr>a_evolutionLog := a_evolutionLog st @
                   [\<lparr>ev_success = False, ev_plan = None, ev_feature = None, ev_mode = mode,
                     ev_request = request,
                     ev_error = Some (''Code failed sandbox test: '' @ reason),
                     ev_timestamp = w_now w\<rparr>],
               a_stages := a_stages st @ [Planning, PlanValidation, CodeGeneration] @ ss @
                             [Recording False]\<rparr>)"
  using assms
  by (simp add: evolve_def evolution_failed_def recordEvolution_def called_def Let_def
        interpolate_def)

lemmas world_defs = example_world_def example_state_def failure_record_def empty_manager_def

lemma evolve_static_example:
  "evolve (example_world doubler_plan ''while (true) {}'' (Failed ''boom'')) (Some ''double'') ''guided''
     example_state =
   (Inl (Error ''Code failed sandbox test: Banned pattern detected: while (true)''),
    example_state\<lparr>a_evolutionLog :=
        [failure_record ''Code failed sandbox test: Banned pattern detected: while (true)''],
      a_stages := [Planning, PlanValidation, CodeGeneration, StaticAnalysis, Recording False]\<rparr>)"
proof -
  have t: "testInSandbox loadSafetyRules loadBannedPatterns
             (w_vm (example_world doubler_plan ''while (true) {}'' (Failed ''boom''))) ''while (true) {}'' =
           (performStaticAnalysis loadSafetyRules loadBannedPatterns ''while (true) {}'', [StaticAnalysis])"
    by (rule testInSandbox_static) (simp add: while_true_report)
  show ?thesis
    using evolve_sandbox_rejected [where w = "example_world doubler_plan ''while (true) {}'' (Failed ''boom'')"
            and plan = doubler_plan and code = "''while (true) {}''" and st = example_state
            and request = "Some ''double''" and mode = "''guided''"
            and reason = "''Banned pattern detected: while (true)''"
            and r = "performStaticAnalysis loadSafetyRules loadBannedPatterns ''while (true) {}''"
            and ss = "[StaticAnalysis]"] t
    by (simp add: world_defs doubler_plan_approved while_true_report)
qed

lemma evolve_sandbox_example:
  "evolve (example_world doubler_plan doubler_code (Failed ''boom'')) (Some ''double'') ''guided''
     example_state =
   (Inl (Error ''Code failed sandbox test: Dynamic testing failed: boom''),
    example_state\<lparr>a_evolutionLog :=
        [failure_record ''Code failed sandbox test: Dynamic testing failed: boom''],
      a_stages := [Planning, PlanValidation, CodeGeneration, StaticAnalysis, SandboxExecution,
                   Recording False]\<rparr>)"
proof -
  have t: "testInSandbox loadSafetyRules loadBannedPatterns
             (w_vm (example_world doubler_plan doubler_code (Failed ''boom''))) doubler_code =
           (performDynamicTesting loadSafetyRules
              (w_vm (example_world doubler_plan doubler_code (Failed ''boom'')) doubler_code),
            [StaticAnalysis, SandboxExecution])"
    by (rule testInSandbox_dynamic) (simp_all add: doubler_code_static example_world_def boom_run)
  show ?thesis
    using evolve_sandbox_rejected [where w = "example_world doubler_plan doubler_code (Failed ''boom'')"
            and plan = doubler_plan and code = doubler_code and st = example_state
            and request = "Some ''double''" and mode = "''guided''"
            and reason = "''Dynamic testing failed: boom''"
            and r = "performDynamicTesting loadSafetyRules
              (w_vm (example_world doubler_plan doubler_code (Failed ''boom'')) doubler_code)"
            and ss = "[StaticAnalysis, SandboxExecution]"] t
    by (simp add: world_defs doubler_plan_approved boom_run)
qed

lemma evolve_plan_example:
  "evolve (example_world hack_plan doubler_code (Failed ''boom'')) (Some ''double'') ''guided''
     example_state =
   (Inl (Error ''Safety validation failed: Suspicious keyword detected: hack''),
    example_state\<lparr>a_evolutionLog :=
        [failure_record ''Safety validation failed: Suspicious keyword detected: hack''],
      a_stages := [Planning, PlanValidation, Recording False]\<rparr>)"
  using evolve_plan_rejected [where w = "example_world hack_plan doubler_code (Failed ''boom'')"
            and plan = hack_plan and st = example_state
            and request = "Some ''double''" and mode = "''guided''"]
  by (simp add: world_defs hack_plan_rejected)

section \<open>Validating a plan\<close>




section \<open>Static analysis\<close>



section \<open>Dynamic testing\<close>




section \<open>The evolution cycle\<close>

text \<open>
  Claim C2. For every candidate, when a validation stage reports a result that is not
  approved, \<open>evolve\<close> ends with an error whose message is the stage's reason, unchanged,
  after the prefix of the pipeline step ("Safety validation failed: " for the plan,
  "Code failed sandbox test: " for the code), records the failure, and calls no later
  stage. After a plan rejection the stages called are planning, plan validation and the
  recording of the failure: no code generation, static analysis, sandbox execution or
  integration. After a static-analysis rejection they end with static analysis and the
  recording: no sandbox execution, no integration. After a sandbox rejection they end
  with the sandbox execution and the recording: no integration. In all three the registry
  is the one before the cycle.
\<close>

theorem evolve_rejection_short_circuits:
  "(\<forall>plan.
      w_plan w request mode (a_features st) = Returns plan \<and> \<not> v_approved (validatePlan plan) \<longrightarrow>
      evolve w request mode st =
        (Inl (Error (''Safety validation failed: '' @ v_reason (validatePlan plan))),
         st\<lparr>a_evolutionLog := a_evolutionLog st @
                [\<lparr>ev_success = False, ev_plan = None, ev_feature = None, ev_mode = mode,
                  ev_request = request,
                  ev_error = Some (''Safety validation failed: '' @ v_reason (validatePlan plan)),
                  ev_timestamp = w_now w\<rparr>],
            a_stages := a_stages st @ [Planning, PlanValidation, Recording False]\<rparr>)) \<and>
   (\<forall>plan code.
      w_plan w request mode (a_features st) = Returns plan \<and> v_approved (validatePlan plan) \<and>
      w_generateCode w plan = Returns code \<and>
      \<not> rp_safe (performStaticAnalysis (w_rules w) loadBannedPatterns code) \<longrightarrow>
      (\<exists>reason.
         rp_reason (performStaticAnalysis (w_rules w) loadBannedPatterns code) = Some reason \<and>
         evolve w request mode st =
           (Inl (Error (''Code failed sandbox test: '' @ reason)),
            st\<lparr>a_evolutionLog := a_evolutionLog st @
                   [\<lparr>ev_success = False, ev_plan = None, ev_feature = None, ev_mode = mode,
                     ev_request = request,
                     ev_error = Some (''Code failed sandbox test: '' @ reason),
                     ev_timestamp = w_now w\<rparr>],
               a_stages := a_stages st @
                 [Planning, PlanValidation, CodeGeneration, StaticAnalysis, Recording False]\<rparr>))) \<and>
   (\<forall>plan code.
      w_plan w request mode (a_features st) = Returns plan \<and> v_approved (validatePlan plan) \<and>
      w_generateCode w plan = Returns code \<and>
      rp_safe (performStaticAnalysis (w_rules w) loadBannedPatterns code) \<and>
      \<not> rp_safe (performDynamicTesting (w_rules w) (w_vm w code)) \<longrightarrow>
      (\<exists>reason.
         rp_reason (performDynamicTesting (w_rules w) (w_vm w code)) = Some reason \<and>
         evolve w request mode st =
           (Inl (Error (''Code failed sandbox test: '' @ reason)),
            st\<lparr>a_evolutionLog := a_evolutionLog st @
                   [\<lparr>ev_success = False, ev_plan = None, ev_feature = None, ev_mode = mode,
                     ev_request = request,
                     ev_error = Some (''Code failed sandbox test: '' @ reason),
                     ev_timestamp = w_now w\<rparr>],
               a_stages := a_stages st @
                 [Planning, PlanValidation, CodeGeneration, StaticAnalysis, SandboxExecution,
                  Recording False]\<rparr>)))"
proof (intro conjI allI impI)
  fix plan
  assume "w_plan w request mode (a_features st) = Returns plan \<and> \<not> v_approved (validatePlan plan)"
  then show "evolve w request mode st =
        (Inl (Error (''Safety validation failed: '' @ v_reason (validatePlan plan))),
         st\<lparr>a_evolutionLog := a_evolutionLog st @
                [\<lparr>ev_success = False, ev_plan = None, ev_feature = None, ev_mode = mode,
                  ev_request = request,
                  ev_error = Some (''Safety validation failed: '' @ v_reason (validatePlan plan)),
                  ev_timestamp = w_now w\<rparr>],
            a_stages := a_stages st @ [Planning, PlanValidation, Recording False]\<rparr>)"
    by (intro evolve_plan_rejected [where plan = plan]) simp_all
next
  fix plan code
  assume h: "w_plan w request mode (a_features st) = Returns plan \<and> v_approved (validatePlan plan) \<and>
      w_generateCode w plan = Returns code \<and>
      \<not> rp_safe (performStaticAnalysis (w_rules w) loadBannedPatterns code)"
  then obtain reason where
    r: "rp_reason (performStaticAnalysis (w_rules w) loadBannedPatterns code) = Some reason"
    using static_unsafe_reason by blast
  from h have t: "testInSandbox (w_rules w) loadBannedPatterns (w_vm w) code =
      (performStaticAnalysis (w_rules w) loadBannedPatterns code, [StaticAnalysis])"
    by (simp add: testInSandbox_static)
  from h have "evolve w request mode st =
           (Inl (Error (''Code failed sandbox test: '' @ reason)),
            st\<lparr>a_evolutionLog := a_evolutionLog st @
                   [\<lparr>ev_success = False, ev_plan = None, ev_feature = None, ev_mode = mode,
                     ev_request = request,
                     ev_error = Some (''Code failed sandbox test: '' @ reason),
                     ev_timestamp = w_now w\<rparr>],
               a_stages := a_stages st @ [Planning, PlanValidation, CodeGeneration] @ [StaticAnalysis] @
                             [Recording False]\<rparr>)"
    by (intro evolve_sandbox_rejected [where plan = plan and code = code, OF _ _ _ t _ r]) simp_all
  with r show "\<exists>reason.
         rp_reason (performStaticAnalysis (w_rules w) loadBannedPatterns code) = Some reason \<and>
         evolve w request mode st =
           (Inl (Error (''Code failed sandbox test: '' @ reason)),
            st\<lparr>a_evolutionLog := a_evolutionLog st @
                   [\<lparr>ev_success = False, ev_plan = None, ev_feature = None, ev_mode = mode,
                     ev_request = request,
                     ev_error = Some (''Code failed sandbox test: '' @ reason),
                     ev_timestamp = w_now w\<rparr>],
               a_stages := a_stages st @
                 [Planning, PlanValidation, CodeGeneration, StaticAnalysis, Recording False]\<rparr>)"
    by simp
next
  fix plan code
  assume h: "w_plan w request mode (a_features st) = Returns plan \<and> v_approved (validatePlan plan) \<and>
      w_generateCode w plan = Returns code \<and>
      rp_safe (performStaticAnalysis (w_rules w) loadBannedPatterns code) \<and>
      \<not> rp_safe (performDynamicTesting (w_rules w) (w_vm w code))"
  then obtain reason where
    r: "rp_reason (performDynamicTesting (w_rules w) (w_vm w code)) = Some reason"
    using dynamic_unsafe_reason by blast
  from h have t: "testInSandbox (w_rules w) loadBannedPatterns (w_vm w) code =
      (performDynamicTesting (w_rules w) (w_vm w code), [StaticAnalysis, SandboxExecution])"
    by (simp add: testInSandbox_dynamic)
  from h have "evolve w request mode st =
           (Inl (Error (''Code failed sandbox test: '' @ reason)),
            st\<lparr>a_evolutionLog := a_evolutionLog st @
                   [\<lparr>ev_success = False, ev_plan = None, ev_feature = None, ev_mode = mode,
                     ev_request = request,
                     ev_error = Some (''Code failed sandbox test: '' @ reason),
                     ev_timestamp = w_now w\<rparr>],
               a_stages := a_stages st @ [Planning, PlanValidation, CodeGeneration] @
                             [StaticAnalysis, SandboxExecution] @ [Recording False]\<rparr>)"
    by (intro evolve_sandbox_rejected [where plan = plan and code = code, OF _ _ _ t _ r]) simp_all
  with r show "\<exists>reason.
         rp_reason (performDynamicTesting (w_rules w) (w_vm w code)) = Some reason \<and>
         evolve w request mode st =
           (Inl (Error (''Code failed sandbox test: '' @ reason)),
            st\<lparr>a_evolutionLog := a_evolutionLog st @
                   [\<lparr>ev_success = False, ev_plan = None, ev_feature = None, ev_mode = mode,
                     ev_request = request,
                     ev_error = Some (''Code failed sandbox test: '' @ reason),
                     ev_timestamp = w_now w\<rparr>],
               a_stages := a_stages st @
                 [Planning, PlanValidation, CodeGeneration, StaticAnalysis, SandboxExecution,
                  Recording False]\<rparr>)"
    by simp
qed

theorem evolve_rejection_short_circuits_witness:
  "evolve (example_world hack_plan doubler_code (Failed ''boom'')) (Some ''double'') ''guided''
     example_state =
   (Inl (Error ''Safety validation failed: Suspicious keyword detected: hack''),
    example_state\<lparr>a_evolutionLog :=
        [failure_record ''Safety validation failed: Suspicious keyword detected: hack''],
      a_stages := [Planning, PlanValidation, Recording False]\<rparr>) \<and>
   evolve (example_world doubler_plan ''while (true) {}'' (Failed ''boom'')) (Some ''double'') ''guided''
     example_state =
   (Inl (Error ''Code failed sandbox test: Banned pattern detected: while (true)''),
    example_state\<lparr>a_evolutionLog :=
        [failure_record ''Code failed sandbox test: Banned pattern detected: while (true)''],
      a_stages := [Planning, PlanValidation, CodeGeneration, StaticAnalysis, Recording False]\<rparr>) \<and>
   evolve (example_world doubler_plan doubler_code (Failed ''boom'')) (Some ''double'') ''guided''
     example_state =
   (Inl (Error ''Code failed sandbox test: Dynamic testing failed: boom''),
    example_state\<lparr>a_evolutionLog :=
        [failure_record ''Code failed sandbox test: Dynamic testing failed: boom''],
      a_stages := [Planning, PlanValidation, CodeGeneration, StaticAnalysis, SandboxExecution,
                   Recording False]\<rparr>)"
  using evolve_rejection_short_circuits
          [of "example_world hack_plan doubler_code (Failed ''boom'')" "Some ''double''" "''guided''"
              example_state]
        evolve_rejection_short_circuits
          [of "example_world doubler_plan ''while (true) {}'' (Failed ''boom'')" "Some ''double''"
              "''guided''" example_state]
        evolve_rejection_short_circuits
          [of "example_world doubler_plan doubler_code (Failed ''boom'')" "Some ''double''"
              "''guided''" example_state]
  by (simp add: world_defs hack_plan_rejected doubler_plan_approved while_true_report
        doubler_code_static boom_run)

text \<open>
  Claim C1, as the code has it. No evolution cycle writes to the Quarantine Store:
  \<open>evolve\<close> never calls \<open>quarantineCode\<close>, so the files under \<open>logs/quarantine\<close> after
  a cycle are those before it, whatever the outcome. What a cycle that fails does before
  it terminates is to add a failure record to the evolution history, with the message of
  the error (which holds the rejecting stage's reason) and without the code text.
\<close>

theorem evolve_never_quarantines:
  "a_quarantine (snd (evolve w request mode st)) = a_quarantine st \<and>
   (\<exists>ss. a_stages (snd (evolve w request mode st)) = a_stages st @ ss \<and> Quarantine \<notin> set ss) \<and>
   (\<forall>e. fst (evolve w request mode st) = Inl e \<longrightarrow>
      a_evolutionLog (snd (evolve w request mode st)) \<noteq> [] \<and>
      last (a_evolutionLog (snd (evolve w request mode st))) =
        \<lparr>ev_success = False, ev_plan = None, ev_feature = None, ev_mode = mode,
         ev_request = request, ev_error = Some (message e), ev_timestamp = w_now w\<rparr>)"
  by (auto simp add: evolve_def evolution_failed_def recordEvolution_def called_def Let_def
        dest: testInSandbox_no_quarantine
        split: outcome.splits prod.splits sum.splits)

theorem evolve_never_quarantines_witness:
  "fst (evolve (example_world hack_plan doubler_code (Failed ''boom'')) (Some ''double'') ''guided''
          example_state) =
     Inl (Error ''Safety validation failed: Suspicious keyword detected: hack'') \<and>
   a_quarantine (snd (evolve (example_world hack_plan doubler_code (Failed ''boom''))
          (Some ''double'') ''guided'' example_state)) = [] \<and>
   last (a_evolutionLog (snd (evolve (example_world hack_plan doubler_code (Failed ''boom''))
          (Some ''double'') ''guided'' example_state))) =
     failure_record ''Safety validation failed: Suspicious keyword detected: hack''"
  using evolve_never_quarantines
          [of "example_world hack_plan doubler_code (Failed ''boom'')" "Some ''double''" "''guided''"
              example_state]
  unfolding evolve_plan_example fst_conv snd_conv
  by (simp add: world_defs)

text \<open>
  Claim C1, as the spec has it, fails: a candidate rejected by static analysis, and one
  rejected by the sandbox, end their cycles with the Quarantine Store empty as before.
\<close>

theorem rejected_code_is_not_quarantined:
  "fst (evolve (example_world doubler_plan ''while (true) {}'' (Failed ''boom'')) (Some ''double'')
          ''guided'' example_state) =
     Inl (Error ''Code failed sandbox test: Banned pattern detected: while (true)'') \<and>
   a_quarantine (snd (evolve (example_world doubler_plan ''while (true) {}'' (Failed ''boom''))
          (Some ''double'') ''guided'' example_state)) = [] \<and>
   a_stages (snd (evolve (example_world doubler_plan ''while (true) {}'' (Failed ''boom''))
          (Some ''double'') ''guided'' example_state)) =
     [Planning, PlanValidation, CodeGeneration, StaticAnalysis, Recording False] \<and>
   fst (evolve (example_world doubler_plan doubler_code (Failed ''boom'')) (Some ''double'')
          ''guided'' example_state) =
     Inl (Error ''Code failed sandbox test: Dynamic testing failed: boom'') \<and>
   a_quarantine (snd (evolve (example_world doubler_plan doubler_code (Failed ''boom''))
          (Some ''double'') ''guided'' example_state)) = [] \<and>
   a_stages (snd (evolve (example_world doubler_plan doubler_code (Failed ''boom''))
          (Some ''double'') ''guided'' example_state)) =
     [Planning, PlanValidation, CodeGeneration, StaticAnalysis, SandboxExecution, Recording False]"
  unfolding evolve_static_example evolve_sandbox_example fst_conv snd_conv
  by (simp add: example_state_def)

end
